theory Spec2Isabelle
  imports Main "HOL-Library.Word" "HOL-Library.Signed_Division"
begin

section \<open>Go runtime notions shared by the packages\<close>

text \<open>
  A Go function either returns or panics. The panics the modelled code can raise are
  listed by cause; \<open>AssertionFailed\<close> carries the message of an explicit
  \<^verbatim>\<open>panic(...)\<close> call or names the single-value type assertion that failed.
\<close>

datatype panic =
    IndexOutOfRange
  | NegativeGrowCount
  | CloseOfNilChannel
  | CloseOfClosedChannel
  | SendOnClosedChannel
  | AssertionFailed string

datatype 'a outcome = Panic panic | Return 'a

text \<open>
  Go \<^verbatim>\<open>error\<close> values: \<open>Msg\<close> is \<^verbatim>\<open>errors.New\<close> (or \<^verbatim>\<open>fmt.Errorf\<close> without
  \<^verbatim>\<open>%w\<close>; formatted operands are left out of the text), \<open>Wrap\<close> is
  \<^verbatim>\<open>fmt.Errorf("...: %w", err)\<close> and \<open>Joined\<close> is the result of \<^verbatim>\<open>errors.Join\<close>. The
  nil error is \<open>None\<close>.
\<close>

datatype error = Msg string | Wrap string error | Joined "error list"

fun present :: "error option list \<Rightarrow> error list" where
  "present [] = []"
| "present (None # es) = present es"
| "present (Some e # es) = e # present es"

text \<open>\<^verbatim>\<open>errors.Join\<close> discards nil arguments and returns nil when every argument is nil.\<close>

definition errors_Join :: "error option \<Rightarrow> error option \<Rightarrow> error option" where
  "errors_Join a b = (case present [a, b] of [] \<Rightarrow> None | es \<Rightarrow> Some (Joined es))"

section \<open>Channels\<close>

text \<open>
  A channel reference is \<open>None\<close> (the nil channel) or the identity of a channel; the
  subscriber maps \<^verbatim>\<open>map[chan<- T]struct{}\<close> are sets of identities. The channels
  themselves live in a store. \<open>cap\<close> counts the sends a channel can take without
  blocking: its free buffer slots, or a receiver already parked on it.
\<close>

type_synonym chanref = "nat option"

record 'a chan =
  buf :: "'a list"
  cap :: nat
  closed :: bool

type_synonym 'a chans = "nat \<Rightarrow> 'a chan"

text \<open>\<^verbatim>\<open>select { case c <- v: default: }\<close> on a channel that is not closed.\<close>

definition try_send :: "'a \<Rightarrow> 'a chan \<Rightarrow> 'a chan" where
  "try_send v ch = (if length (buf ch) < cap ch then ch\<lparr>buf := buf ch @ [v]\<rparr> else ch)"

text \<open>
  \<^verbatim>\<open>for c := range subs { select { case c <- v: default: } }\<close>. Every key is visited
  once and the sends go to different channels, so the iteration order does not show in
  the result. A send on a closed channel panics.
\<close>

definition fan_out :: "nat set \<Rightarrow> 'a \<Rightarrow> 'a chans \<Rightarrow> 'a chans outcome" where
  "fan_out subs v store =
     (if \<exists>c\<in>subs. closed (store c) then Panic SendOnClosedChannel
      else Return (\<lambda>c. if c \<in> subs then try_send v (store c) else store c))"

text \<open>
  The \<^verbatim>\<open>closeSignalHandler chan struct{}\<close> of both facilities is only ever closed and
  received from, so its state is one of three.
\<close>

datatype close_chan = NilChan | OpenChan | ClosedChan

text \<open>The builtin \<^verbatim>\<open>close(ch)\<close>.\<close>

fun close_builtin :: "close_chan \<Rightarrow> close_chan outcome" where
  "close_builtin NilChan = Panic CloseOfNilChannel"
| "close_builtin OpenChan = Return ClosedChan"
| "close_builtin ClosedChan = Panic CloseOfClosedChannel"

text \<open>
  Whether \<^verbatim>\<open><-ch\<close> can proceed: nothing is ever sent, a closed channel always
  yields, and a receive from the nil channel blocks forever.
\<close>

fun recv_ready :: "close_chan \<Rightarrow> bool" where
  "recv_ready NilChan = False"
| "recv_ready OpenChan = False"
| "recv_ready ClosedChan = True"

text \<open>
  The background goroutine of both constructors:
  \<^verbatim>\<open>for { select { case <-closeSignalHandler: ...; case v := <-c: handleIncomingSignal(v) } }\<close>.
  \<open>reader_ready\<close> is the set of cases the select may choose, given the shutdown channel
  and the signals pending on \<open>c\<close>.
\<close>

datatype reader_case = ShutdownCase | IncomingCase

definition reader_ready :: "close_chan \<Rightarrow> 'sig list \<Rightarrow> reader_case set" where
  "reader_ready ch pending =
     (if recv_ready ch then {ShutdownCase} else {}) \<union> (if pending = [] then {} else {IncomingCase})"

section \<open>The D-Bus transport\<close>

text \<open>
  Values as the bus library decodes them: \<open>DSlice\<close> is \<^verbatim>\<open>[]interface{}\<close> (arrays and
  structs), \<open>DVariantMap\<close> is \<^verbatim>\<open>map[string]dbus.Variant\<close>.
\<close>

datatype dval =
    DBool bool
  | DString string
  | DObjectPath string
  | DUint32 nat
  | DUnixFD nat
  | DSlice "dval list"
  | DVariantMap "(string \<times> dval) list"

record match_rule =
  MatchObjectPath :: string
  MatchInterface :: string
  MatchSender :: string
  MatchMember :: string

datatype request =
    AddMatch match_rule
  | RemoveMatch match_rule
  | Call string string "dval list"

type_synonym reply = "error + dval list"

text \<open>
  The connection is the external collaborator. It is modelled as a fake transport: it
  records every request made of it, and answers from a script of replies (a reply is an
  error or a body); once the script is used up every call succeeds with an empty body.
  Any finite behaviour of a real bus is one such script.
\<close>

record Conn =
  sent :: "request list"
  script :: "reply list"

definition roundtrip :: "request \<Rightarrow> Conn \<Rightarrow> reply \<times> Conn" where
  "roundtrip rq c =
     (case script c of
        [] \<Rightarrow> (Inr [], c\<lparr>sent := sent c @ [rq]\<rparr>)
      | r # rs \<Rightarrow> (r, c\<lparr>sent := sent c @ [rq], script := rs\<rparr>))"

fun reply_err :: "reply \<Rightarrow> error option" where
  "reply_err (Inl e) = Some e"
| "reply_err (Inr body) = None"

definition AddMatchSignal :: "match_rule \<Rightarrow> Conn \<Rightarrow> error option \<times> Conn" where
  "AddMatchSignal rule c = (case roundtrip (AddMatch rule) c of (r, c') \<Rightarrow> (reply_err r, c'))"

definition RemoveMatchSignal :: "match_rule \<Rightarrow> Conn \<Rightarrow> error option \<times> Conn" where
  "RemoveMatchSignal rule c = (case roundtrip (RemoveMatch rule) c of (r, c') \<Rightarrow> (reply_err r, c'))"

record BusObject =
  Dest :: string
  Path :: string

text \<open>\<^verbatim>\<open>conn.Object(dest, path)\<close> always yields an object, never nil.\<close>

definition Conn_Object :: "string \<Rightarrow> string \<Rightarrow> BusObject" where
  "Conn_Object dest path = \<lparr>Dest = dest, Path = path\<rparr>"

record Signal =
  SigPath :: string
  Name :: string
  Body :: "dval list"

text \<open>\<^verbatim>\<open>xs[i]\<close> on a slice: a run-time panic when the index is out of range.\<close>

definition index :: "'a list \<Rightarrow> nat \<Rightarrow> 'a outcome" where
  "index xs i = (if i < length xs then Return (xs ! i) else Panic IndexOutOfRange)"

section \<open>Package inhibit: joining the inhibited categories\<close>

type_synonym What = string

definition WhatHandleHibernateKey :: What where "WhatHandleHibernateKey = ''handle-hibernate-key''"
definition WhatHandleLidSwitch :: What where "WhatHandleLidSwitch = ''handle-lid-switch''"
definition WhatHandlePowerKey :: What where "WhatHandlePowerKey = ''handle-power-key''"
definition WhatHandleSuspendKey :: What where "WhatHandleSuspendKey = ''handle-suspend-key''"
definition WhatIdle :: What where "WhatIdle = ''idle''"
definition WhatShutdown :: What where "WhatShutdown = ''shutdown''"
definition WhatSleep :: What where "WhatSleep = ''sleep''"

text \<open>
  \<^verbatim>\<open>strings.Builder\<close>: the builder is its accumulated bytes. \<^verbatim>\<open>Grow(n)\<close> only reserves
  capacity, and panics when \<open>n\<close> is negative; \<^verbatim>\<open>WriteString\<close> appends.
\<close>

definition Builder_Grow :: "int \<Rightarrow> string \<Rightarrow> string outcome" where
  "Builder_Grow n b = (if n < 0 then Panic NegativeGrowCount else Return b)"

definition Builder_WriteString :: "string \<Rightarrow> string \<Rightarrow> string" where
  "Builder_WriteString s b = b @ s"

definition sep :: string where
  "sep = '':''"

text \<open>The first loop of \<^verbatim>\<open>joinWhat\<close>: \<^verbatim>\<open>for _, elem := range elems { n += len(elem) }\<close>.\<close>

fun add_lengths :: "What list \<Rightarrow> int \<Rightarrow> int" where
  "add_lengths [] n = n"
| "add_lengths (elem # elems) n = add_lengths elems (n + int (length elem))"

text \<open>The second loop: \<^verbatim>\<open>for _, s := range elems[1:]\<close>, writing the separator and then \<open>s\<close>.\<close>

fun write_tail :: "What list \<Rightarrow> string \<Rightarrow> string" where
  "write_tail [] b = b"
| "write_tail (s # ss) b = write_tail ss (Builder_WriteString s (Builder_WriteString sep b))"

text \<open>
  \<^verbatim>\<open>joinWhat\<close>, statement by statement: the length estimate \<open>n\<close>, \<^verbatim>\<open>b.Grow(n)\<close>, the
  read of \<^verbatim>\<open>elems[0]\<close> (a run-time panic on an empty slice) and the loop over the rest.
  Lengths are far below the range of Go's 64-bit \<^verbatim>\<open>int\<close>, so \<open>n\<close> is an \<open>int\<close>.
\<close>

definition joinWhat :: "What list \<Rightarrow> string outcome" where
  "joinWhat elems =
     (let n = add_lengths elems (0 + int (length sep) * (int (length elems) - 1)) in
      case Builder_Grow n [] of
        Panic p \<Rightarrow> Panic p
      | Return b \<Rightarrow>
          (case elems of
             [] \<Rightarrow> Panic IndexOutOfRange
           | e0 # rest \<Rightarrow> Return (write_tail rest (Builder_WriteString e0 b))))"

text \<open>
  The specification's wording of the same result: the values joined with a separator.
\<close>

fun spec_joined :: "string \<Rightarrow> string list \<Rightarrow> string" where
  "spec_joined s [] = []"
| "spec_joined s [x] = x"
| "spec_joined s (x # y # ys) = x @ s @ spec_joined s (y # ys)"

section \<open>Package inhibit: the Inhibitor\<close>

definition dbusDest :: string where "dbusDest = ''org.freedesktop.login1''"
definition dbusManagerInterface :: string where "dbusManagerInterface = ''org.freedesktop.login1.Manager''"
definition dbusPath :: string where "dbusPath = ''/org/freedesktop/login1''"

text \<open>
  The \<^verbatim>\<open>Inhibitor\<close> struct. The mutex \<^verbatim>\<open>muSignals\<close> makes every method body atomic with
  respect to the others, so each method is one state transformer. The fields
  \<^verbatim>\<open>conn\<close> and \<^verbatim>\<open>closeSignalHandler\<close> carry the prefix \<open>i_\<close>; the lock package has
  fields of the same names.
\<close>

record Inhibitor =
  i_conn :: Conn
  login1 :: BusObject
  i_closeSignalHandler :: close_chan
  prepareForSleepSubs :: "nat set"
  prepareForShutdownSubs :: "nat set"

text \<open>
  \<^verbatim>\<open>New\<close>, given the result of \<^verbatim>\<open>dbus.SystemBus()\<close>. The struct literal names four
  fields; \<^verbatim>\<open>closeSignalHandler\<close> is not among them and keeps its zero value, nil.
\<close>

definition New :: "error + Conn \<Rightarrow> error + Inhibitor" where
  "New bus =
     (case bus of
        Inl err \<Rightarrow> Inl (Wrap ''failed to connect to system bus'' err)
      | Inr c \<Rightarrow>
          Inr \<lparr>i_conn = c,
               login1 = Conn_Object dbusDest dbusPath,
               i_closeSignalHandler = NilChan,
               prepareForSleepSubs = {},
               prepareForShutdownSubs = {}\<rparr>)"

type_synonym Mode = string

text \<open>
  \<^verbatim>\<open>Store(&fd)\<close> on the reply of the \<^verbatim>\<open>Inhibit\<close> call: the body has to be one file
  descriptor.
\<close>

fun Store_UnixFD :: "dval list \<Rightarrow> error + nat" where
  "Store_UnixFD [DUnixFD fd] = Inr fd"
| "Store_UnixFD body = Inl (Msg ''dbus.Store: type mismatch'')"

text \<open>
  \<^verbatim>\<open>Inhibit\<close>. The arguments of \<^verbatim>\<open>Call\<close> are evaluated first, \<^verbatim>\<open>joinWhat(what)\<close> among
  them. The result is the error or the descriptor that \<^verbatim>\<open>os.NewFile\<close> wraps.
\<close>

definition Inhibit ::
  "string \<Rightarrow> string \<Rightarrow> Mode \<Rightarrow> What list \<Rightarrow> Inhibitor \<Rightarrow> ((error + nat) \<times> Inhibitor) outcome" where
  "Inhibit who why mode what i =
     (case joinWhat what of
        Panic p \<Rightarrow> Panic p
      | Return w \<Rightarrow>
          (case roundtrip
                  (Call (Path (login1 i)) (dbusManagerInterface @ ''.Inhibit'')
                     [DString w, DString who, DString why, DString mode])
                  (i_conn i) of
             (Inl err, c') \<Rightarrow>
               Return (Inl (Wrap ''failed to create inhibit lock'' err), i\<lparr>i_conn := c'\<rparr>)
           | (Inr body, c') \<Rightarrow>
               (case Store_UnixFD body of
                  Inl err \<Rightarrow>
                    Return (Inl (Wrap ''failed to create inhibit lock'' err), i\<lparr>i_conn := c'\<rparr>)
                | Inr fd \<Rightarrow> Return (Inr fd, i\<lparr>i_conn := c'\<rparr>))))"

text \<open>
  \<^verbatim>\<open>handleIncomingSignal\<close> of the Inhibitor. The signal pointer may be nil. The store
  holds the subscribers' \<^verbatim>\<open>chan<- bool\<close> channels.
\<close>

definition inhibit_handleIncomingSignal ::
  "Signal option \<Rightarrow> Inhibitor \<Rightarrow> bool chans \<Rightarrow> bool chans outcome" where
  "inhibit_handleIncomingSignal sig i store =
     (case sig of
        None \<Rightarrow> Return store
      | Some s \<Rightarrow>
          if SigPath s \<noteq> Path (login1 i) then Return store
          else if Name s = ''org.freedesktop.login1.Manager.PrepareForSleep'' then
            (case index (Body s) 0 of
               Panic p \<Rightarrow> Panic p
             | Return (DBool change) \<Rightarrow> fan_out (prepareForSleepSubs i) change store
             | Return other \<Rightarrow>
                 Panic (AssertionFailed
                   ''org.freedesktop.login1.Manager.PrepareForSleep signal, body[0] is not a boolean''))
          else if Name s = ''org.freedesktop.login1.Manager.PrepareForShutdown'' then
            (case index (Body s) 0 of
               Panic p \<Rightarrow> Panic p
             | Return (DBool change) \<Rightarrow> fan_out (prepareForShutdownSubs i) change store
             | Return other \<Rightarrow>
                 Panic (AssertionFailed
                   ''org.freedesktop.login1.Manager.PrepareForShutdown signal, body[0] is not a boolean''))
          else Return store)"

definition sleep_rule :: "Inhibitor \<Rightarrow> match_rule" where
  "sleep_rule i =
     \<lparr>MatchObjectPath = Path (login1 i), MatchInterface = dbusManagerInterface,
      MatchSender = dbusDest, MatchMember = ''PrepareForSleep''\<rparr>"

definition shutdown_rule :: "Inhibitor \<Rightarrow> match_rule" where
  "shutdown_rule i =
     \<lparr>MatchObjectPath = Path (login1 i), MatchInterface = dbusManagerInterface,
      MatchSender = dbusDest, MatchMember = ''PrepareForShutdown''\<rparr>"

definition SubscribePrepareForSleep :: "chanref \<Rightarrow> Inhibitor \<Rightarrow> error option \<times> Inhibitor" where
  "SubscribePrepareForSleep c i =
     (case c of
        None \<Rightarrow> (Some (Msg ''SubscribePrepareForSleep: channel cannot be nil''), i)
      | Some ch \<Rightarrow>
          if prepareForSleepSubs i = {} then
            (case AddMatchSignal (sleep_rule i) (i_conn i) of
               (Some err, c') \<Rightarrow>
                 (Some (Wrap ''failed to register Dbus PrepareForSleep signal'' err), i\<lparr>i_conn := c'\<rparr>)
             | (None, c') \<Rightarrow>
                 (None, i\<lparr>i_conn := c', prepareForSleepSubs := insert ch (prepareForSleepSubs i)\<rparr>))
          else (None, i\<lparr>prepareForSleepSubs := insert ch (prepareForSleepSubs i)\<rparr>))"

definition removePrepareForSleepSignal :: "Inhibitor \<Rightarrow> error option \<times> Inhibitor" where
  "removePrepareForSleepSignal i =
     (case RemoveMatchSignal (sleep_rule i) (i_conn i) of
        (Some err, c') \<Rightarrow>
          (Some (Wrap ''failed to remove Dbus PrepareForSleep signal'' err), i\<lparr>i_conn := c'\<rparr>)
      | (None, c') \<Rightarrow> (None, i\<lparr>i_conn := c'\<rparr>))"

definition UnsubscribePrepareForSleep :: "chanref \<Rightarrow> Inhibitor \<Rightarrow> error option \<times> Inhibitor" where
  "UnsubscribePrepareForSleep c i =
     (case c of
        None \<Rightarrow> (Some (Msg ''RemoveLockSignal: channel cannot be nil''), i)
      | Some ch \<Rightarrow>
          (let i' = i\<lparr>prepareForSleepSubs := prepareForSleepSubs i - {ch}\<rparr> in
           if prepareForSleepSubs i' = {} then removePrepareForSleepSignal i' else (None, i')))"

definition SubscribePrepareForShutdown :: "chanref \<Rightarrow> Inhibitor \<Rightarrow> error option \<times> Inhibitor" where
  "SubscribePrepareForShutdown c i =
     (case c of
        None \<Rightarrow> (Some (Msg ''SubscribePrepareForShutdown: channel cannot be nil''), i)
      | Some ch \<Rightarrow>
          if prepareForShutdownSubs i = {} then
            (case AddMatchSignal (shutdown_rule i) (i_conn i) of
               (Some err, c') \<Rightarrow>
                 (Some (Wrap ''failed to register Dbus PrepareForShutdown signal'' err), i\<lparr>i_conn := c'\<rparr>)
             | (None, c') \<Rightarrow>
                 (None, i\<lparr>i_conn := c', prepareForShutdownSubs := insert ch (prepareForShutdownSubs i)\<rparr>))
          else (None, i\<lparr>prepareForShutdownSubs := insert ch (prepareForShutdownSubs i)\<rparr>))"

definition removePrepareForShutdownSignal :: "Inhibitor \<Rightarrow> error option \<times> Inhibitor" where
  "removePrepareForShutdownSignal i =
     (case RemoveMatchSignal (shutdown_rule i) (i_conn i) of
        (Some err, c') \<Rightarrow>
          (Some (Wrap ''failed to remove Dbus PrepareForShutdown signal'' err), i\<lparr>i_conn := c'\<rparr>)
      | (None, c') \<Rightarrow> (None, i\<lparr>i_conn := c'\<rparr>))"

definition UnsubscribePrepareForShutdown :: "chanref \<Rightarrow> Inhibitor \<Rightarrow> error option \<times> Inhibitor" where
  "UnsubscribePrepareForShutdown c i =
     (case c of
        None \<Rightarrow> (Some (Msg ''PrepareForShutdown: channel cannot be nil''), i)
      | Some ch \<Rightarrow>
          (let i' = i\<lparr>prepareForShutdownSubs := prepareForShutdownSubs i - {ch}\<rparr> in
           if prepareForShutdownSubs i' = {} then removePrepareForShutdownSignal i' else (None, i')))"

text \<open>
  \<^verbatim>\<open>Inhibitor.Close\<close>, in the order of its statements; the last is
  \<^verbatim>\<open>close(i.closeSignalHandler)\<close>.
\<close>

definition Inhibitor_Close :: "Inhibitor \<Rightarrow> (error option \<times> Inhibitor) outcome" where
  "Inhibitor_Close i =
     (let i1 = i\<lparr>prepareForSleepSubs := {}\<rparr>;
          (e1, i2) = removePrepareForShutdownSignal i1;
          err1 = errors_Join None e1;
          i3 = i2\<lparr>prepareForShutdownSubs := {}\<rparr>;
          (e2, i4) = removePrepareForSleepSignal i3;
          err2 = errors_Join err1 e2
      in case close_builtin (i_closeSignalHandler i4) of
           Panic p \<Rightarrow> Panic p
         | Return ch \<Rightarrow> Return (err2, i4\<lparr>i_closeSignalHandler := ch\<rparr>))"

text \<open>The methods a caller may run on an Inhibitor, and a run of several of them.\<close>

datatype inhibitor_op =
    SubSleep chanref
  | UnsubSleep chanref
  | SubShutdown chanref
  | UnsubShutdown chanref

fun inhibitor_step :: "inhibitor_op \<Rightarrow> Inhibitor \<Rightarrow> error option \<times> Inhibitor" where
  "inhibitor_step (SubSleep c) i = SubscribePrepareForSleep c i"
| "inhibitor_step (UnsubSleep c) i = UnsubscribePrepareForSleep c i"
| "inhibitor_step (SubShutdown c) i = SubscribePrepareForShutdown c i"
| "inhibitor_step (UnsubShutdown c) i = UnsubscribePrepareForShutdown c i"

text \<open>All operations in turn, whatever each returns.\<close>

fun inhibitor_run :: "inhibitor_op list \<Rightarrow> Inhibitor \<Rightarrow> Inhibitor" where
  "inhibitor_run [] i = i"
| "inhibitor_run (op # ops) i = inhibitor_run ops (snd (inhibitor_step op i))"

section \<open>Package lock: the D-Bus session lock\<close>

text \<open>
  The \<^verbatim>\<open>dbusCon\<close> struct; \<^verbatim>\<open>muSignals\<close> again makes each method atomic. The channels
  of \<open>lockSignals\<close> and \<open>unlockSignals\<close> carry \<^verbatim>\<open>struct{}\<close>, those of
  \<open>lockedHintSignals\<close> carry \<^verbatim>\<open>bool\<close>.
\<close>

record dbusCon =
  conn :: Conn
  loginSessionObject :: BusObject
  closeSignalHandler :: close_chan
  lockSignals :: "nat set"
  lockedHintSignals :: "nat set"
  unlockSignals :: "nat set"
  lockSignalActive :: bool
  propertiesChangedActive :: bool
  unlockSignalActive :: bool

text \<open>
  \<^verbatim>\<open>Store(&sessions)\<close> with \<^verbatim>\<open>sessions []interface{}\<close>: the body has to be one array.
\<close>

fun Store_slice :: "dval list \<Rightarrow> error + dval list" where
  "Store_slice [DSlice xs] = Inr xs"
| "Store_slice body = Inl (Msg ''dbus.Store: type mismatch'')"

text \<open>
  The loop of \<^verbatim>\<open>NewDbusSessionLock\<close> over the sessions. \<open>obj\<close> is
  \<^verbatim>\<open>result.loginSessionObject\<close>, an interface value that may be nil; the loop assigns
  it on a match and breaks, and leaves it as it was when it runs to the end.
\<close>

fun find_session ::
  "string \<Rightarrow> dval list \<Rightarrow> BusObject option \<Rightarrow> (error + BusObject option) outcome" where
  "find_session sessionId [] obj = Return (Inr obj)"
| "find_session sessionId (sessionInt # rest) obj =
     (case sessionInt of
        DSlice session \<Rightarrow>
          (case index session 0 of
             Panic p \<Rightarrow> Panic p
           | Return (DString currentSessionId) \<Rightarrow>
               if currentSessionId = sessionId then
                 (case index session 4 of
                    Panic p \<Rightarrow> Panic p
                  | Return (DObjectPath sessionPath) \<Rightarrow>
                      Return (Inr (Some (Conn_Object ''org.freedesktop.login1'' sessionPath)))
                  | Return other \<Rightarrow> Return (Inl (Msg ''session [4] is not an ObjectPath'')))
               else find_session sessionId rest obj
           | Return other \<Rightarrow> Return (Inl (Msg ''session [0] is not a string'')))
      | other \<Rightarrow> Return (Inl (Msg ''session is not an array of interface'')))"

text \<open>
  \<^verbatim>\<open>NewDbusSessionLock\<close>, given the result of \<^verbatim>\<open>dbus.ConnectSystemBus()\<close>. The struct
  literal sets \<^verbatim>\<open>loginSessionObject\<close> to the manager object
  \<^verbatim>\<open>conn.Object("org.freedesktop.login1", "/org/freedesktop/login1")\<close> before the loop;
  after the loop the field is compared with nil.
\<close>

definition NewDbusSessionLock :: "string \<Rightarrow> error + Conn \<Rightarrow> (error + dbusCon) outcome" where
  "NewDbusSessionLock sessionId bus =
     (if sessionId = [] then Return (Inl (Msg ''sessionId is empty''))
      else
        (case bus of
           Inl err \<Rightarrow> Return (Inl (Wrap ''failed to connect to system bus'' err))
         | Inr c \<Rightarrow>
             (case roundtrip
                     (Call ''/org/freedesktop/login1'' ''org.freedesktop.login1.Manager.ListSessions'' [])
                     c of
                (Inl err, c') \<Rightarrow> Return (Inl err)
              | (Inr body, c') \<Rightarrow>
                  (case Store_slice body of
                     Inl err \<Rightarrow> Return (Inl err)
                   | Inr sessions \<Rightarrow>
                       (case find_session sessionId sessions
                               (Some (Conn_Object ''org.freedesktop.login1'' ''/org/freedesktop/login1'')) of
                          Panic p \<Rightarrow> Panic p
                        | Return (Inl err) \<Rightarrow> Return (Inl err)
                        | Return (Inr None) \<Rightarrow> Return (Inl (Msg ''failed to find session object''))
                        | Return (Inr (Some obj)) \<Rightarrow>
                            Return (Inr
                              \<lparr>conn = c',
                               loginSessionObject = obj,
                               closeSignalHandler = OpenChan,
                               lockSignals = {},
                               lockedHintSignals = {},
                               unlockSignals = {},
                               lockSignalActive = False,
                               propertiesChangedActive = False,
                               unlockSignalActive = False\<rparr>))))))"

definition lock_rule :: "dbusCon \<Rightarrow> match_rule" where
  "lock_rule dc =
     \<lparr>MatchObjectPath = Path (loginSessionObject dc), MatchInterface = ''org.freedesktop.login1.Session'',
      MatchSender = ''org.freedesktop.login1'', MatchMember = ''Lock''\<rparr>"

definition AddLockSignal :: "chanref \<Rightarrow> dbusCon \<Rightarrow> error option \<times> dbusCon" where
  "AddLockSignal c dc =
     (case c of
        None \<Rightarrow> (Some (Msg ''AddLockSignal: channel cannot be nil''), dc)
      | Some ch \<Rightarrow>
          (let dc' = dc\<lparr>lockSignals := insert ch (lockSignals dc)\<rparr> in
           if \<not> lockSignalActive dc' then
             (case AddMatchSignal (lock_rule dc') (conn dc') of
                (Some err, c') \<Rightarrow> (Some (Wrap ''failed to register Dbus Lock signal'' err), dc'\<lparr>conn := c'\<rparr>)
              | (None, c') \<Rightarrow> (None, dc'\<lparr>conn := c', lockSignalActive := True\<rparr>))
           else (None, dc')))"

definition removeLockSignal :: "dbusCon \<Rightarrow> error option \<times> dbusCon" where
  "removeLockSignal dc =
     (if \<not> lockSignalActive dc then (None, dc)
      else
        (case RemoveMatchSignal (lock_rule dc) (conn dc) of
           (Some err, c') \<Rightarrow> (Some (Wrap ''failed to remove Dbus Lock signal'' err), dc\<lparr>conn := c'\<rparr>)
         | (None, c') \<Rightarrow> (None, dc\<lparr>conn := c', lockSignalActive := False\<rparr>)))"

definition RemoveLockSignal :: "chanref \<Rightarrow> dbusCon \<Rightarrow> error option \<times> dbusCon" where
  "RemoveLockSignal c dc =
     (case c of
        None \<Rightarrow> (Some (Msg ''RemoveLockSignal: channel cannot be nil''), dc)
      | Some ch \<Rightarrow>
          (let dc' = dc\<lparr>lockSignals := lockSignals dc - {ch}\<rparr> in
           if lockSignals dc' = {} then removeLockSignal dc' else (None, dc')))"

definition unlock_rule :: "dbusCon \<Rightarrow> match_rule" where
  "unlock_rule dc =
     \<lparr>MatchObjectPath = Path (loginSessionObject dc), MatchInterface = ''org.freedesktop.login1.Session'',
      MatchSender = ''org.freedesktop.login1'', MatchMember = ''Unlock''\<rparr>"

definition AddUnlockSignal :: "chanref \<Rightarrow> dbusCon \<Rightarrow> error option \<times> dbusCon" where
  "AddUnlockSignal c dc =
     (case c of
        None \<Rightarrow> (Some (Msg ''AddUnlockSignal: channel cannot be nil''), dc)
      | Some ch \<Rightarrow>
          (let dc' = dc\<lparr>unlockSignals := insert ch (unlockSignals dc)\<rparr> in
           if \<not> unlockSignalActive dc' then
             (case AddMatchSignal (unlock_rule dc') (conn dc') of
                (Some err, c') \<Rightarrow> (Some (Wrap ''failed to register Dbus Unlock signal'' err), dc'\<lparr>conn := c'\<rparr>)
              | (None, c') \<Rightarrow> (None, dc'\<lparr>conn := c', unlockSignalActive := True\<rparr>))
           else (None, dc')))"

definition removeUnlockSignal :: "dbusCon \<Rightarrow> error option \<times> dbusCon" where
  "removeUnlockSignal dc =
     (if \<not> unlockSignalActive dc then (None, dc)
      else
        (case RemoveMatchSignal (unlock_rule dc) (conn dc) of
           (Some err, c') \<Rightarrow> (Some (Wrap ''failed to remove Dbus Unlock signal'' err), dc\<lparr>conn := c'\<rparr>)
         | (None, c') \<Rightarrow> (None, dc\<lparr>conn := c', unlockSignalActive := False\<rparr>)))"

definition RemoveUnlockSignal :: "chanref \<Rightarrow> dbusCon \<Rightarrow> error option \<times> dbusCon" where
  "RemoveUnlockSignal c dc =
     (case c of
        None \<Rightarrow> (Some (Msg ''RemoveUnlockSignal: channel cannot be nil''), dc)
      | Some ch \<Rightarrow>
          (let dc' = dc\<lparr>unlockSignals := unlockSignals dc - {ch}\<rparr> in
           if unlockSignals dc' = {} then removeUnlockSignal dc' else (None, dc')))"

definition propertiesChanged_rule :: "dbusCon \<Rightarrow> match_rule" where
  "propertiesChanged_rule dc =
     \<lparr>MatchObjectPath = Path (loginSessionObject dc), MatchInterface = ''org.freedesktop.DBus.Properties'',
      MatchSender = ''org.freedesktop.login1'', MatchMember = ''PropertiesChanged''\<rparr>"

definition AddLockedSignal :: "chanref \<Rightarrow> dbusCon \<Rightarrow> error option \<times> dbusCon" where
  "AddLockedSignal c dc =
     (case c of
        None \<Rightarrow> (Some (Msg ''AddLockedSignal: channel cannot be nil''), dc)
      | Some ch \<Rightarrow>
          (let dc' = dc\<lparr>lockedHintSignals := insert ch (lockedHintSignals dc)\<rparr> in
           if \<not> propertiesChangedActive dc' then
             (case AddMatchSignal (propertiesChanged_rule dc') (conn dc') of
                (Some err, c') \<Rightarrow> (Some (Wrap ''failed to register Dbus signal for LockedHint'' err), dc'\<lparr>conn := c'\<rparr>)
              | (None, c') \<Rightarrow> (None, dc'\<lparr>conn := c', propertiesChangedActive := True\<rparr>))
           else (None, dc')))"

definition removePropertiesChangedSignal :: "dbusCon \<Rightarrow> error option \<times> dbusCon" where
  "removePropertiesChangedSignal dc =
     (if \<not> propertiesChangedActive dc then (None, dc)
      else
        (case RemoveMatchSignal (propertiesChanged_rule dc) (conn dc) of
           (Some err, c') \<Rightarrow> (Some (Wrap ''failed to remove Dbus PropertiesChanged signal'' err), dc\<lparr>conn := c'\<rparr>)
         | (None, c') \<Rightarrow> (None, dc\<lparr>conn := c', propertiesChangedActive := False\<rparr>)))"

definition RemoveLockedSignal :: "chanref \<Rightarrow> dbusCon \<Rightarrow> error option \<times> dbusCon" where
  "RemoveLockedSignal c dc =
     (case c of
        None \<Rightarrow> (Some (Msg ''RemoveLockedSignal: channel cannot be nil''), dc)
      | Some ch \<Rightarrow>
          (let dc' = dc\<lparr>lockedHintSignals := lockedHintSignals dc - {ch}\<rparr> in
           if lockedHintSignals dc' = {} then removePropertiesChangedSignal dc' else (None, dc')))"

text \<open>
  \<^verbatim>\<open>dbusCon.Close\<close>, in the order of its statements; the last is
  \<^verbatim>\<open>close(dc.closeSignalHandler)\<close>.
\<close>

definition dbusCon_Close :: "dbusCon \<Rightarrow> (error option \<times> dbusCon) outcome" where
  "dbusCon_Close dc =
     (let dc1 = dc\<lparr>lockSignals := {}\<rparr>;
          (e1, dc2) = removeLockSignal dc1;
          err1 = errors_Join None e1;
          dc3 = dc2\<lparr>unlockSignals := {}\<rparr>;
          (e2, dc4) = removeUnlockSignal dc3;
          err2 = errors_Join err1 e2;
          dc5 = dc4\<lparr>lockedHintSignals := {}\<rparr>;
          (e3, dc6) = removePropertiesChangedSignal dc5;
          err3 = errors_Join err2 e3
      in case close_builtin (closeSignalHandler dc6) of
           Panic p \<Rightarrow> Panic p
         | Return ch \<Rightarrow> Return (err3, dc6\<lparr>closeSignalHandler := ch\<rparr>))"

text \<open>
  \<^verbatim>\<open>handleIncomingSignal\<close> of the lock. \<^verbatim>\<open>s.Body[1].(map[string]dbus.Variant)\<close> is a
  single-value type assertion: it panics when the value is of another type.
\<close>

definition lock_handleIncomingSignal ::
  "Signal option \<Rightarrow> dbusCon \<Rightarrow> unit chans \<times> bool chans \<Rightarrow> (unit chans \<times> bool chans) outcome" where
  "lock_handleIncomingSignal sig dc stores =
     (case sig of
        None \<Rightarrow> Return stores
      | Some s \<Rightarrow>
          if SigPath s \<noteq> Path (loginSessionObject dc) then Return stores
          else if Name s = ''org.freedesktop.login1.Session.Lock'' then
            (case fan_out (lockSignals dc) () (fst stores) of
               Panic p \<Rightarrow> Panic p
             | Return us \<Rightarrow> Return (us, snd stores))
          else if Name s = ''org.freedesktop.login1.Session.Unlock'' then
            (case fan_out (unlockSignals dc) () (fst stores) of
               Panic p \<Rightarrow> Panic p
             | Return us \<Rightarrow> Return (us, snd stores))
          else if Name s = ''org.freedesktop.DBus.Properties.PropertiesChanged'' then
            (case index (Body s) 1 of
               Panic p \<Rightarrow> Panic p
             | Return (DVariantMap changedProperties) \<Rightarrow>
                 (case map_of changedProperties ''LockedHint'' of
                    None \<Rightarrow> Return stores
                  | Some (DBool isLocked) \<Rightarrow>
                      (case fan_out (lockedHintSignals dc) isLocked (snd stores) of
                         Panic p \<Rightarrow> Panic p
                       | Return bs \<Rightarrow> Return (fst stores, bs))
                  | Some other \<Rightarrow>
                      Panic (AssertionFailed ''PropertiesChanged signal's LockedHint is not a boolean''))
             | Return other \<Rightarrow>
                 Panic (AssertionFailed ''interface conversion: not map[string]dbus.Variant''))
          else Return stores)"

text \<open>The methods a caller may run on a lock, and a run of several of them.\<close>

datatype lock_op =
    AddLock chanref
  | RemoveLock chanref
  | AddUnlock chanref
  | RemoveUnlock chanref
  | AddLocked chanref
  | RemoveLocked chanref

fun lock_step :: "lock_op \<Rightarrow> dbusCon \<Rightarrow> error option \<times> dbusCon" where
  "lock_step (AddLock c) dc = AddLockSignal c dc"
| "lock_step (RemoveLock c) dc = RemoveLockSignal c dc"
| "lock_step (AddUnlock c) dc = AddUnlockSignal c dc"
| "lock_step (RemoveUnlock c) dc = RemoveUnlockSignal c dc"
| "lock_step (AddLocked c) dc = AddLockedSignal c dc"
| "lock_step (RemoveLocked c) dc = RemoveLockedSignal c dc"

text \<open>
  A run in which every operation succeeded (returned the nil error); \<open>None\<close> when one
  of them returned an error.
\<close>

fun lock_run_ok :: "lock_op list \<Rightarrow> dbusCon \<Rightarrow> dbusCon option" where
  "lock_run_ok [] dc = Some dc"
| "lock_run_ok (op # ops) dc =
     (case lock_step op dc of
        (None, dc') \<Rightarrow> lock_run_ok ops dc'
      | (Some err, dc') \<Rightarrow> None)"

text \<open>All operations in turn, whatever each returns.\<close>

fun lock_run :: "lock_op list \<Rightarrow> dbusCon \<Rightarrow> dbusCon" where
  "lock_run [] dc = dc"
| "lock_run (op # ops) dc = lock_run ops (snd (lock_step op dc))"

text \<open>
  Each activation flag of the lock agrees with its subscriber set: the flag is set
  exactly when the set is not empty.
\<close>

definition lock_inv :: "dbusCon \<Rightarrow> bool" where
  "lock_inv dc \<longleftrightarrow>
     (lockSignalActive dc \<longleftrightarrow> lockSignals dc \<noteq> {}) \<and>
     (unlockSignalActive dc \<longleftrightarrow> unlockSignals dc \<noteq> {}) \<and>
     (propertiesChangedActive dc \<longleftrightarrow> lockedHintSignals dc \<noteq> {})"

text \<open>
  The requests that the edges of a subscriber count call for: add-match when the set
  goes from empty to non-empty, remove-match when it goes from non-empty to empty, none
  otherwise.
\<close>

definition edge_requests :: "match_rule \<Rightarrow> nat set \<Rightarrow> nat set \<Rightarrow> request list" where
  "edge_requests rule before after =
     (if before = {} \<and> after \<noteq> {} then [AddMatch rule]
      else if before \<noteq> {} \<and> after = {} then [RemoveMatch rule]
      else [])"

text \<open>
  The payload shapes the dispatch expects: a boolean first for \<^verbatim>\<open>PrepareForSleep\<close> and
  \<^verbatim>\<open>PrepareForShutdown\<close>; for \<^verbatim>\<open>PropertiesChanged\<close> a property map second, whose
  \<^verbatim>\<open>LockedHint\<close> entry, when there is one, is a boolean.
\<close>

fun prepare_body_ok :: "dval list \<Rightarrow> bool" where
  "prepare_body_ok (DBool change # rest) = True"
| "prepare_body_ok body = False"

fun locked_hint_ok :: "dval option \<Rightarrow> bool" where
  "locked_hint_ok None = True"
| "locked_hint_ok (Some (DBool isLocked)) = True"
| "locked_hint_ok (Some other) = False"

fun properties_body_ok :: "dval list \<Rightarrow> bool" where
  "properties_body_ok (first # DVariantMap changedProperties # rest) =
     locked_hint_ok (map_of changedProperties ''LockedHint'')"
| "properties_body_ok body = False"

section \<open>Package idle: the Wayland idle controller\<close>

text \<open>
  \<^verbatim>\<open>time.Duration\<close> is an \<^verbatim>\<open>int64\<close> count of nanoseconds; \<^verbatim>\<open>Milliseconds()\<close> is
  \<^verbatim>\<open>int64(d) / 1e6\<close>, and Go's integer division truncates towards zero (\<open>sdiv\<close> on
  \<open>int\<close>).
\<close>

type_synonym int64 = "64 word"
type_synonym uint32 = "32 word"

definition Milliseconds :: "int64 \<Rightarrow> int64" where
  "Milliseconds d = word_of_int (sint d sdiv 1000000)"

definition MaxUint32 :: int where
  "MaxUint32 = 4294967295"

record CreateIdleNotification =
  Duration :: int64
  Idle :: chanref
  Resume :: chanref

text \<open>
  The protocol object \<^verbatim>\<open>idleNotify.IdleNotifier\<close> is external. It is modelled as a fake
  that records the timeout of every \<^verbatim>\<open>GetIdleNotification\<close> request and answers from a
  script (an error or a notification handle); once the script is used up it hands out
  fresh handles.
\<close>

record IdleNotifier =
  requested :: "uint32 list"
  answers :: "(error + nat) list"

definition GetIdleNotification :: "uint32 \<Rightarrow> IdleNotifier \<Rightarrow> (error + nat) \<times> IdleNotifier" where
  "GetIdleNotification timeout nf =
     (case answers nf of
        [] \<Rightarrow> (Inr (length (requested nf)), nf\<lparr>requested := requested nf @ [timeout]\<rparr>)
      | a # rest \<Rightarrow> (a, nf\<lparr>requested := requested nf @ [timeout], answers := rest\<rparr>))"

text \<open>
  Of the controller only the notifier matters to \<^verbatim>\<open>AddNotification\<close>. The returned
  \<^verbatim>\<open>waylandIdleNotification\<close> carries its handle and the channels its two handlers
  forward to (\<open>None\<close> when no handler was set); \<open>n_closed\<close> is its field
  \<^verbatim>\<open>closed\<close>.
\<close>

record waylandIdleController =
  notifier :: IdleNotifier

record waylandIdleNotification =
  n_closed :: bool
  notification :: nat
  idledHandler :: chanref
  resumedHandler :: chanref

definition AddNotification ::
  "CreateIdleNotification \<Rightarrow> waylandIdleController \<Rightarrow>
     (error + waylandIdleNotification) \<times> waylandIdleController" where
  "AddNotification notificationInput m =
     (if Idle notificationInput = None \<and> Resume notificationInput = None
      then (Inl (Msg ''either Idle or Resume is required''), m)
      else
        (let durationMs = Milliseconds (Duration notificationInput) in
         if sint durationMs > MaxUint32 then (Inl (Msg ''duration too large''), m)
         else
           (let durationMs' = (if sint durationMs < 0 then 0 else durationMs) in
            case GetIdleNotification (ucast durationMs') (notifier m) of
              (Inl err, nf) \<Rightarrow>
                (Inl (Wrap ''unable to get idle notification'' err), m\<lparr>notifier := nf\<rparr>)
            | (Inr handle, nf) \<Rightarrow>
                (Inr \<lparr>n_closed = False, notification = handle,
                      idledHandler = Idle notificationInput,
                      resumedHandler = Resume notificationInput\<rparr>,
                 m\<lparr>notifier := nf\<rparr>))))"

section \<open>Joining the inhibited categories\<close>

lemma add_lengths_ge: "n \<le> add_lengths elems n"
proof (induction elems arbitrary: n)
  case Nil
  show ?case by simp
next
  case (Cons elem elems)
  have "n \<le> n + int (length elem)" by simp
  also have "\<dots> \<le> add_lengths elems (n + int (length elem))" by (rule Cons.IH)
  finally show ?case by simp
qed

lemma write_tail_concat: "write_tail rest b = b @ concat (map (\<lambda>y. sep @ y) rest)"
  by (induction rest arbitrary: b) (simp_all add: Builder_WriteString_def)

lemma spec_joined_Cons: "spec_joined s (x # xs) = x @ concat (map (\<lambda>y. s @ y) xs)"
  by (induction xs arbitrary: x) simp_all

lemma joinWhat_nonempty: "joinWhat (e # rest) = Return (spec_joined '':'' (e # rest))"
proof -
  have "0 \<le> add_lengths (e # rest) (0 + int (length sep) * (int (length (e # rest)) - 1))"
    by (rule order_trans [OF _ add_lengths_ge]) (simp add: sep_def)
  then show ?thesis
    unfolding joinWhat_def Let_def Builder_Grow_def
    by (simp add: write_tail_concat spec_joined_Cons Builder_WriteString_def sep_def
          del: add_lengths.simps)
qed

lemma joinWhat_empty: "joinWhat [] = Panic NegativeGrowCount"
  by (simp add: joinWhat_def Builder_Grow_def sep_def)

lemma roundtrip_sent: "roundtrip rq c = (r, c') \<Longrightarrow> sent c' = sent c @ [rq]"
  by (auto simp: roundtrip_def split: list.splits)

lemma Inhibit_sends:
  assumes "joinWhat elems = Return w"
  shows "\<exists>r i'. Inhibit who why mode elems i = Return (r, i')
            \<and> sent (i_conn i') = sent (i_conn i) @
                [Call (Path (login1 i)) ''org.freedesktop.login1.Manager.Inhibit''
                   [DString w, DString who, DString why, DString mode]]"
proof -
  obtain r c' where rt:
    "roundtrip
       (Call (Path (login1 i)) (dbusManagerInterface @ ''.Inhibit'')
          [DString w, DString who, DString why, DString mode])
       (i_conn i) = (r, c')"
    by force
  have m: "dbusManagerInterface @ ''.Inhibit'' = ''org.freedesktop.login1.Manager.Inhibit''"
    by (simp add: dbusManagerInterface_def)
  have s: "sent c' = sent (i_conn i) @
             [Call (Path (login1 i)) ''org.freedesktop.login1.Manager.Inhibit''
                [DString w, DString who, DString why, DString mode]]"
    using roundtrip_sent [OF rt] by (simp only: m)
  show ?thesis
  proof (cases r)
    case (Inl err)
    then show ?thesis using rt s by (simp add: Inhibit_def assms)
  next
    case (Inr body)
    then show ?thesis
      using rt s by (cases "Store_UnixFD body") (simp_all add: Inhibit_def assms)
  qed
qed

text \<open>
  C8. For every non-empty list of \<open>What\<close> values, \<open>joinWhat\<close> returns the values joined
  with the separator \<open>:\<close>, and \<open>Inhibit\<close> sends exactly one \<^verbatim>\<open>Manager.Inhibit\<close> call whose
  first argument is that string (followed by who, why and mode). In particular
  \<open>[WhatSleep]\<close> gives \<open>sleep\<close> and \<open>[WhatSleep, WhatIdle]\<close> gives \<open>sleep:idle\<close>.
\<close>

theorem joinWhat_joins:
  "(elems \<noteq> [] \<longrightarrow>
      joinWhat elems = Return (spec_joined '':'' elems)
      \<and> (\<exists>r i'. Inhibit who why mode elems i = Return (r, i')
            \<and> sent (i_conn i') = sent (i_conn i) @
                [Call (Path (login1 i)) ''org.freedesktop.login1.Manager.Inhibit''
                   [DString (spec_joined '':'' elems), DString who, DString why, DString mode]]))
   \<and> joinWhat [WhatSleep] = Return ''sleep''
   \<and> joinWhat [WhatSleep, WhatIdle] = Return ''sleep:idle''"
proof (intro conjI impI)
  assume ne: "elems \<noteq> []"
  then obtain e rest where "elems = e # rest" by (cases elems) auto
  then show j: "joinWhat elems = Return (spec_joined '':'' elems)"
    by (simp only: joinWhat_nonempty)
  show "\<exists>r i'. Inhibit who why mode elems i = Return (r, i')
            \<and> sent (i_conn i') = sent (i_conn i) @
                [Call (Path (login1 i)) ''org.freedesktop.login1.Manager.Inhibit''
                   [DString (spec_joined '':'' elems), DString who, DString why, DString mode]]"
    by (rule Inhibit_sends [OF j])
next
  show "joinWhat [WhatSleep] = Return ''sleep''"
    by (simp add: joinWhat_nonempty WhatSleep_def)
  show "joinWhat [WhatSleep, WhatIdle] = Return ''sleep:idle''"
    by (simp add: joinWhat_nonempty WhatSleep_def WhatIdle_def)
qed

theorem joinWhat_joins_witness:
  "[WhatShutdown, WhatSleep, WhatIdle] \<noteq> []
   \<and> joinWhat [WhatShutdown, WhatSleep, WhatIdle] = Return ''shutdown:sleep:idle''"
  using joinWhat_joins [of "[WhatShutdown, WhatSleep, WhatIdle]"]
  by (simp add: WhatShutdown_def WhatSleep_def WhatIdle_def)

text \<open>
  C10, as stated, names the read of \<^verbatim>\<open>elems[0]\<close> as the panic of \<open>joinWhat\<close> on the empty
  list. The function does not get that far: the length estimate is \<open>-1\<close> and
  \<^verbatim>\<open>b.Grow(-1)\<close> panics first.
\<close>

theorem joinWhat_empty_counterexample:
  "joinWhat [] \<noteq> Panic IndexOutOfRange"
  by (simp add: joinWhat_empty)

text \<open>
  C10, amended. On the empty list \<open>joinWhat\<close> panics, in \<^verbatim>\<open>strings.Builder.Grow\<close> with a
  negative count, and so does \<open>Inhibit\<close> called with no \<open>what\<close> argument; \<open>joinWhat\<close>
  returns a string exactly for the non-empty lists.
\<close>

theorem joinWhat_empty_panics:
  "joinWhat [] = Panic NegativeGrowCount
   \<and> Inhibit who why mode [] i = Panic NegativeGrowCount
   \<and> ((\<exists>s. joinWhat elems = Return s) \<longleftrightarrow> elems \<noteq> [])"
proof (intro conjI)
  show "joinWhat [] = Panic NegativeGrowCount" by (rule joinWhat_empty)
  show "Inhibit who why mode [] i = Panic NegativeGrowCount"
    by (simp add: Inhibit_def joinWhat_empty)
  show "(\<exists>s. joinWhat elems = Return s) \<longleftrightarrow> elems \<noteq> []"
    by (cases elems) (simp_all add: joinWhat_empty joinWhat_nonempty)
qed

section \<open>The idle duration\<close>

lemma sdiv_million_bound:
  fixes k :: int
  shows "\<bar>k sdiv 1000000\<bar> * 1000000 \<le> \<bar>k\<bar>"
proof -
  have "\<bar>k sdiv 1000000\<bar> = \<bar>k\<bar> div 1000000"
    by (simp add: signed_divide_int_def abs_mult sgn_if)
  moreover have "\<bar>k\<bar> div 1000000 * 1000000 = \<bar>k\<bar> - \<bar>k\<bar> mod 1000000"
    by (simp add: minus_mod_eq_div_mult)
  moreover have "0 \<le> \<bar>k\<bar> mod 1000000"
    by simp
  ultimately show ?thesis by linarith
qed

text \<open>The division does not leave the range of \<^verbatim>\<open>int64\<close>.\<close>

lemma sint_Milliseconds: "sint (Milliseconds d) = sint d sdiv 1000000"
proof -
  have lo: "- 9223372036854775808 \<le> sint d" and hi: "sint d < 9223372036854775808"
    using sint_ge [of d] sint_lt [of d] by simp_all
  have "\<bar>sint d sdiv 1000000\<bar> * 1000000 \<le> \<bar>sint d\<bar>" by (rule sdiv_million_bound)
  with lo hi have "- 9223372036854775808 \<le> sint d sdiv 1000000"
      "sint d sdiv 1000000 < 9223372036854775808"
    by linarith+
  then have "signed_take_bit 63 (sint d sdiv 1000000) = sint d sdiv 1000000"
    by (intro signed_take_bit_int_eq_self) simp_all
  then show ?thesis
    unfolding Milliseconds_def by (simp add: sint_sbintrunc')
qed

lemma Milliseconds_minus_5s: "Milliseconds (- 5000000000) = - 5000"
  by (simp add: Milliseconds_def signed_divide_int_def)

lemma Milliseconds_5000ms: "Milliseconds 5000000000 = 5000"
  by (simp add: Milliseconds_def signed_divide_int_def)

lemma negative_duration_clamped:
  assumes "sint d < 0"
  shows "(if sint (Milliseconds d) < 0 then 0 else Milliseconds d) = 0"
proof -
  have "sint d sdiv 1000000 \<le> 0"
    using assms by (simp add: signed_divide_int_def sgn_if)
  then have "sint (Milliseconds d) \<le> 0" by (simp add: sint_Milliseconds)
  then have "sint (Milliseconds d) < 0 \<or> sint (Milliseconds d) = 0" by linarith
  then show ?thesis by (auto simp: signed_eq_0_iff)
qed

lemma duration_in_range_kept:
  assumes "0 \<le> sint (Milliseconds d)" "sint (Milliseconds d) \<le> MaxUint32"
  shows "uint (ucast (Milliseconds d) :: uint32) = sint d sdiv 1000000"
proof -
  let ?w = "Milliseconds d"
  have "uint ?w = take_bit 64 (sint ?w)" using uint_sint [of ?w] by simp
  also have "\<dots> = sint ?w"
    using assms by (simp add: take_bit_int_eq_self MaxUint32_def)
  finally have u: "uint ?w = sint ?w" .
  have "uint (ucast ?w :: uint32) = take_bit 32 (uint ?w)"
    by (simp add: unsigned_ucast_eq)
  also have "\<dots> = sint ?w"
    using assms u by (simp add: take_bit_int_eq_self MaxUint32_def)
  finally show ?thesis by (simp add: sint_Milliseconds)
qed

lemma AddNotification_too_large:
  "sint (Milliseconds (Duration inp)) > MaxUint32 \<Longrightarrow>
     (\<exists>e. fst (AddNotification inp m) = Inl e) \<and> snd (AddNotification inp m) = m"
  by (simp add: AddNotification_def Let_def)

lemma GetIdleNotification_requested:
  "requested (snd (GetIdleNotification t nf)) = requested nf @ [t]"
  by (simp add: GetIdleNotification_def split: list.splits)

lemma AddNotification_requests:
  assumes "Idle inp \<noteq> None \<or> Resume inp \<noteq> None"
    and "\<not> sint (Milliseconds (Duration inp)) > MaxUint32"
  shows "requested (notifier (snd (AddNotification inp m))) =
           requested (notifier m) @
             [ucast (if sint (Milliseconds (Duration inp)) < 0 then 0
                     else Milliseconds (Duration inp))]"
proof -
  let ?t = "ucast (if sint (Milliseconds (Duration inp)) < 0 then 0
                   else Milliseconds (Duration inp)) :: uint32"
  obtain r nf where g: "GetIdleNotification ?t (notifier m) = (r, nf)" by force
  have "requested nf = requested (notifier m) @ [?t]"
    using GetIdleNotification_requested [of ?t "notifier m"] g by simp
  then show ?thesis
    using assms g by (cases r) (auto simp: AddNotification_def Let_def)
qed

text \<open>
  C5. \<open>AddNotification\<close> with a duration of -5s (and a delivery channel) requests an idle
  notification with timeout 0; a duration whose millisecond value exceeds the largest
  \<^verbatim>\<open>uint32\<close> returns an error, yields no notification and makes no request at all; a
  duration of 5000ms requests timeout 5000. More generally every negative duration
  requests 0, and every other duration that is not rejected is requested unchanged.
\<close>

theorem AddNotification_duration:
  "((Idle inp \<noteq> None \<or> Resume inp \<noteq> None) \<and> Duration inp = - 5000000000 \<longrightarrow>
      requested (notifier (snd (AddNotification inp m))) = requested (notifier m) @ [0])
   \<and> (sint (Milliseconds (Duration inp)) > MaxUint32 \<longrightarrow>
        (\<exists>e. fst (AddNotification inp m) = Inl e) \<and> snd (AddNotification inp m) = m)
   \<and> ((Idle inp \<noteq> None \<or> Resume inp \<noteq> None) \<and> Duration inp = 5000000000 \<longrightarrow>
        requested (notifier (snd (AddNotification inp m))) = requested (notifier m) @ [5000])
   \<and> ((Idle inp \<noteq> None \<or> Resume inp \<noteq> None) \<and> sint (Duration inp) < 0 \<longrightarrow>
        requested (notifier (snd (AddNotification inp m))) = requested (notifier m) @ [0])
   \<and> ((Idle inp \<noteq> None \<or> Resume inp \<noteq> None) \<and> 0 \<le> sint (Duration inp)
        \<and> sint (Milliseconds (Duration inp)) \<le> MaxUint32 \<longrightarrow>
        (\<exists>t. requested (notifier (snd (AddNotification inp m))) = requested (notifier m) @ [t]
             \<and> uint t = sint (Duration inp) sdiv 1000000))"
proof (intro conjI impI)
  assume a: "(Idle inp \<noteq> None \<or> Resume inp \<noteq> None) \<and> Duration inp = - 5000000000"
  then have "\<not> sint (Milliseconds (Duration inp)) > MaxUint32"
    by (simp add: Milliseconds_minus_5s MaxUint32_def)
  with a show "requested (notifier (snd (AddNotification inp m))) = requested (notifier m) @ [0]"
    by (simp add: AddNotification_requests Milliseconds_minus_5s)
next
  assume "sint (Milliseconds (Duration inp)) > MaxUint32"
  then show "\<exists>e. fst (AddNotification inp m) = Inl e" "snd (AddNotification inp m) = m"
    by (simp_all add: AddNotification_too_large)
next
  assume a: "(Idle inp \<noteq> None \<or> Resume inp \<noteq> None) \<and> Duration inp = 5000000000"
  then have "\<not> sint (Milliseconds (Duration inp)) > MaxUint32"
    by (simp add: Milliseconds_5000ms MaxUint32_def)
  with a show "requested (notifier (snd (AddNotification inp m))) = requested (notifier m) @ [5000]"
    by (simp add: AddNotification_requests Milliseconds_5000ms)
next
  assume a: "(Idle inp \<noteq> None \<or> Resume inp \<noteq> None) \<and> sint (Duration inp) < 0"
  then have z: "(if sint (Milliseconds (Duration inp)) < 0 then 0 else Milliseconds (Duration inp)) = 0"
    by (simp add: negative_duration_clamped)
  from a have "sint (Duration inp) < 0" by simp
  then have "sint (Duration inp) sdiv 1000000 \<le> 0"
    by (simp add: signed_divide_int_def sgn_if)
  then have b: "\<not> sint (Milliseconds (Duration inp)) > MaxUint32"
    by (simp add: sint_Milliseconds MaxUint32_def)
  from a have c: "Idle inp \<noteq> None \<or> Resume inp \<noteq> None" by simp
  show "requested (notifier (snd (AddNotification inp m))) = requested (notifier m) @ [0]"
    using AddNotification_requests [OF c b, of m] by (simp only: z) simp
next
  assume a: "(Idle inp \<noteq> None \<or> Resume inp \<noteq> None) \<and> 0 \<le> sint (Duration inp)
        \<and> sint (Milliseconds (Duration inp)) \<le> MaxUint32"
  from a have "0 \<le> sint (Duration inp)" by simp
  then have "0 \<le> sint (Duration inp) sdiv 1000000"
    by (simp add: signed_divide_int_def sgn_if)
  then have nn: "0 \<le> sint (Milliseconds (Duration inp))" by (simp add: sint_Milliseconds)
  have r: "requested (notifier (snd (AddNotification inp m))) =
           requested (notifier m) @ [ucast (Milliseconds (Duration inp))]"
    using a nn by (simp add: AddNotification_requests)
  have "uint (ucast (Milliseconds (Duration inp)) :: uint32) = sint (Duration inp) sdiv 1000000"
    using a nn by (simp add: duration_in_range_kept)
  with r show "\<exists>t. requested (notifier (snd (AddNotification inp m))) = requested (notifier m) @ [t]
             \<and> uint t = sint (Duration inp) sdiv 1000000"
    by blast
qed

theorem AddNotification_duration_witness:
  "requested (notifier (snd (AddNotification
       \<lparr>Duration = - 5000000000, Idle = Some 1, Resume = None\<rparr>
       \<lparr>notifier = \<lparr>requested = [], answers = []\<rparr>\<rparr>))) = [0]
   \<and> sint (Milliseconds 4294967296000000) > MaxUint32
   \<and> fst (AddNotification
       \<lparr>Duration = 4294967296000000, Idle = Some 1, Resume = Some 2\<rparr>
       \<lparr>notifier = \<lparr>requested = [], answers = []\<rparr>\<rparr>) = Inl (Msg ''duration too large'')
   \<and> requested (notifier (snd (AddNotification
       \<lparr>Duration = 5000000000, Idle = None, Resume = Some 2\<rparr>
       \<lparr>notifier = \<lparr>requested = [], answers = []\<rparr>\<rparr>))) = [5000]"
  using
    AddNotification_duration [of "\<lparr>Duration = - 5000000000, Idle = Some 1, Resume = None\<rparr>"
      "\<lparr>notifier = \<lparr>requested = [], answers = []\<rparr>\<rparr>"]
    AddNotification_duration [of "\<lparr>Duration = 4294967296000000, Idle = Some 1, Resume = Some 2\<rparr>"
      "\<lparr>notifier = \<lparr>requested = [], answers = []\<rparr>\<rparr>"]
    AddNotification_duration [of "\<lparr>Duration = 5000000000, Idle = None, Resume = Some 2\<rparr>"
      "\<lparr>notifier = \<lparr>requested = [], answers = []\<rparr>\<rparr>"]
  by (simp add: Milliseconds_def signed_divide_int_def MaxUint32_def AddNotification_def)

section \<open>The shutdown channel of the Inhibitor\<close>

lemma removePrepareForSleepSignal_keeps:
  "i_closeSignalHandler (snd (removePrepareForSleepSignal i)) = i_closeSignalHandler i"
  "prepareForSleepSubs (snd (removePrepareForSleepSignal i)) = prepareForSleepSubs i"
  "prepareForShutdownSubs (snd (removePrepareForSleepSignal i)) = prepareForShutdownSubs i"
  by (simp_all add: removePrepareForSleepSignal_def split: prod.splits option.splits)

lemma removePrepareForShutdownSignal_keeps:
  "i_closeSignalHandler (snd (removePrepareForShutdownSignal i)) = i_closeSignalHandler i"
  "prepareForSleepSubs (snd (removePrepareForShutdownSignal i)) = prepareForSleepSubs i"
  "prepareForShutdownSubs (snd (removePrepareForShutdownSignal i)) = prepareForShutdownSubs i"
  by (simp_all add: removePrepareForShutdownSignal_def split: prod.splits option.splits)

lemma inhibitor_step_close_chan:
  "i_closeSignalHandler (snd (inhibitor_step op i)) = i_closeSignalHandler i"
proof (cases op)
  case (SubSleep c)
  then show ?thesis
    by (simp add: SubscribePrepareForSleep_def split: option.splits prod.splits)
next
  case (UnsubSleep c)
  then show ?thesis
    by (simp add: UnsubscribePrepareForSleep_def Let_def removePrepareForSleepSignal_keeps
          split: option.splits)
next
  case (SubShutdown c)
  then show ?thesis
    by (simp add: SubscribePrepareForShutdown_def split: option.splits prod.splits)
next
  case (UnsubShutdown c)
  then show ?thesis
    by (simp add: UnsubscribePrepareForShutdown_def Let_def removePrepareForShutdownSignal_keeps
          split: option.splits)
qed

lemma inhibitor_run_close_chan:
  "i_closeSignalHandler (inhibitor_run ops i) = i_closeSignalHandler i"
  by (induction ops arbitrary: i) (simp_all add: inhibitor_step_close_chan)


lemma Inhibitor_Close_nil:
  assumes "i_closeSignalHandler i = NilChan"
  shows "Inhibitor_Close i = Panic CloseOfNilChannel"
proof -
  obtain e1 i2 where r1: "removePrepareForShutdownSignal (i\<lparr>prepareForSleepSubs := {}\<rparr>) = (e1, i2)"
    by force
  obtain e2 i4 where r2: "removePrepareForSleepSignal (i2\<lparr>prepareForShutdownSubs := {}\<rparr>) = (e2, i4)"
    by force
  have "i_closeSignalHandler i2 = NilChan"
    using removePrepareForShutdownSignal_keeps(1) [of "i\<lparr>prepareForSleepSubs := {}\<rparr>"] r1 assms
    by simp
  then have "i_closeSignalHandler i4 = NilChan"
    using removePrepareForSleepSignal_keeps(1) [of "i2\<lparr>prepareForShutdownSubs := {}\<rparr>"] r2
    by simp
  then show ?thesis
    by (simp add: Inhibitor_Close_def Let_def r1 r2)
qed

text \<open>
  C9. Every Inhibitor returned by \<open>New\<close> has the nil channel as \<open>closeSignalHandler\<close>,
  and no subscribe or unsubscribe operation changes that. Hence, after any operations,
  \<open>Close\<close> panics closing the nil channel, and the shutdown case of the background
  goroutine's select is never among the cases that can be chosen.
\<close>

theorem New_closeSignalHandler_nil:
  assumes "New bus = Inr i"
  shows "i_closeSignalHandler i = NilChan
     \<and> Inhibitor_Close (inhibitor_run ops i) = Panic CloseOfNilChannel
     \<and> ShutdownCase \<notin> reader_ready (i_closeSignalHandler (inhibitor_run ops i)) pending"
proof -
  from assms have n: "i_closeSignalHandler i = NilChan"
    by (auto simp: New_def split: sum.splits)
  then have r: "i_closeSignalHandler (inhibitor_run ops i) = NilChan"
    by (simp add: inhibitor_run_close_chan)
  from n r show ?thesis
    by (simp add: Inhibitor_Close_nil reader_ready_def)
qed

theorem New_closeSignalHandler_nil_witness:
  "New (Inr \<lparr>sent = [], script = []\<rparr>) =
     Inr \<lparr>i_conn = \<lparr>sent = [], script = []\<rparr>,
          login1 = \<lparr>Dest = ''org.freedesktop.login1'', Path = ''/org/freedesktop/login1''\<rparr>,
          i_closeSignalHandler = NilChan, prepareForSleepSubs = {}, prepareForShutdownSubs = {}\<rparr>
   \<and> Inhibitor_Close
        (inhibitor_run [SubSleep (Some 1)]
          \<lparr>i_conn = \<lparr>sent = [], script = []\<rparr>,
           login1 = \<lparr>Dest = ''org.freedesktop.login1'', Path = ''/org/freedesktop/login1''\<rparr>,
           i_closeSignalHandler = NilChan, prepareForSleepSubs = {}, prepareForShutdownSubs = {}\<rparr>)
       = Panic CloseOfNilChannel
   \<and> ShutdownCase \<notin> reader_ready
        (i_closeSignalHandler
          (inhibitor_run [SubSleep (Some 1)]
            \<lparr>i_conn = \<lparr>sent = [], script = []\<rparr>,
             login1 = \<lparr>Dest = ''org.freedesktop.login1'', Path = ''/org/freedesktop/login1''\<rparr>,
             i_closeSignalHandler = NilChan, prepareForSleepSubs = {}, prepareForShutdownSubs = {}\<rparr>))
        [None :: Signal option]"
  using New_closeSignalHandler_nil [of "Inr \<lparr>sent = [], script = []\<rparr>"
      "\<lparr>i_conn = \<lparr>sent = [], script = []\<rparr>,
          login1 = \<lparr>Dest = ''org.freedesktop.login1'', Path = ''/org/freedesktop/login1''\<rparr>,
          i_closeSignalHandler = NilChan, prepareForSleepSubs = {}, prepareForShutdownSubs = {}\<rparr>"
      "[SubSleep (Some 1)]" "[None :: Signal option]"]
  by (simp add: New_def Conn_Object_def dbusDest_def dbusPath_def)


section \<open>Dispatch of malformed signals\<close>

text \<open>
  C7. When a signal comes from the facility's object under a handled name and its body
  does not have the expected shape, the dispatch panics. For the Inhibitor:
  \<^verbatim>\<open>PrepareForSleep\<close> or \<^verbatim>\<open>PrepareForShutdown\<close> whose body does not start with a boolean.
  For the lock: \<^verbatim>\<open>PropertiesChanged\<close> whose second value is not a property map, or whose
  \<^verbatim>\<open>LockedHint\<close> entry is not a boolean.
\<close>

theorem dispatch_bad_shape_panics:
  "(SigPath s = Path (login1 i)
      \<and> (Name s = ''org.freedesktop.login1.Manager.PrepareForSleep''
           \<or> Name s = ''org.freedesktop.login1.Manager.PrepareForShutdown'')
      \<and> \<not> prepare_body_ok (Body s)
      \<longrightarrow> (\<exists>p. inhibit_handleIncomingSignal (Some s) i store = Panic p))
   \<and> (SigPath t = Path (loginSessionObject dc)
      \<and> Name t = ''org.freedesktop.DBus.Properties.PropertiesChanged''
      \<and> \<not> properties_body_ok (Body t)
      \<longrightarrow> (\<exists>p. lock_handleIncomingSignal (Some t) dc stores = Panic p))"
proof (intro conjI impI)
  assume a: "SigPath s = Path (login1 i)
      \<and> (Name s = ''org.freedesktop.login1.Manager.PrepareForSleep''
           \<or> Name s = ''org.freedesktop.login1.Manager.PrepareForShutdown'')
      \<and> \<not> prepare_body_ok (Body s)"
  then have bad: "\<not> prepare_body_ok (Body s)" by simp
  have "\<exists>p. (case index (Body s) 0 of
               Panic p \<Rightarrow> Panic p
             | Return (DBool change) \<Rightarrow> fan_out subs change store
             | Return other \<Rightarrow> Panic (AssertionFailed msg)) = Panic p" for subs msg
  proof (cases "Body s")
    case Nil
    then show ?thesis by (simp add: index_def)
  next
    case (Cons v rest)
    with bad show ?thesis by (cases v) (simp_all add: index_def)
  qed
  with a show "\<exists>p. inhibit_handleIncomingSignal (Some s) i store = Panic p"
    by (auto simp: inhibit_handleIncomingSignal_def)
next
  assume a: "SigPath t = Path (loginSessionObject dc)
      \<and> Name t = ''org.freedesktop.DBus.Properties.PropertiesChanged''
      \<and> \<not> properties_body_ok (Body t)"
  then have bad: "\<not> properties_body_ok (Body t)" by simp
  have "\<exists>p. (case index (Body t) 1 of
               Panic p \<Rightarrow> Panic p
             | Return (DVariantMap changedProperties) \<Rightarrow>
                 (case map_of changedProperties ''LockedHint'' of
                    None \<Rightarrow> Return stores
                  | Some (DBool isLocked) \<Rightarrow>
                      (case fan_out (lockedHintSignals dc) isLocked (snd stores) of
                         Panic p \<Rightarrow> Panic p
                       | Return bs \<Rightarrow> Return (fst stores, bs))
                  | Some other \<Rightarrow> Panic (AssertionFailed m1))
             | Return other \<Rightarrow> Panic (AssertionFailed m2)) = Panic p" for m1 m2
  proof (cases "Body t")
    case Nil
    then show ?thesis by (simp add: index_def)
  next
    case (Cons v rest)
    show ?thesis
    proof (cases rest)
      case Nil
      with Cons show ?thesis by (simp add: index_def)
    next
      case (Cons w rest')
      show ?thesis
      proof (cases w)
        case (DVariantMap changedProperties)
        with \<open>Body t = v # rest\<close> Cons bad
        have h: "\<not> locked_hint_ok (map_of changedProperties ''LockedHint'')" by simp
        then obtain x where x: "map_of changedProperties ''LockedHint'' = Some x"
          by (cases "map_of changedProperties ''LockedHint''") auto
        with h have "\<not> locked_hint_ok (Some x)" by simp
        then show ?thesis
          using \<open>Body t = v # rest\<close> Cons DVariantMap x
          by (cases x) (simp_all add: index_def)
      qed (use \<open>Body t = v # rest\<close> Cons in \<open>simp_all add: index_def\<close>)
    qed
  qed
  with a show "\<exists>p. lock_handleIncomingSignal (Some t) dc stores = Panic p"
    by (auto simp: lock_handleIncomingSignal_def)
qed


theorem dispatch_bad_shape_panics_witness:
  "\<not> prepare_body_ok [DString ''yes'']
   \<and> inhibit_handleIncomingSignal
        (Some \<lparr>SigPath = ''/org/freedesktop/login1'',
               Name = ''org.freedesktop.login1.Manager.PrepareForSleep'',
               Body = [DString ''yes'']\<rparr>)
        \<lparr>i_conn = \<lparr>sent = [], script = []\<rparr>,
         login1 = \<lparr>Dest = ''org.freedesktop.login1'', Path = ''/org/freedesktop/login1''\<rparr>,
         i_closeSignalHandler = NilChan, prepareForSleepSubs = {1}, prepareForShutdownSubs = {}\<rparr>
        (\<lambda>c. \<lparr>buf = [], cap = 1, closed = False\<rparr>)
      = Panic (AssertionFailed
          ''org.freedesktop.login1.Manager.PrepareForSleep signal, body[0] is not a boolean'')
   \<and> \<not> properties_body_ok
          [DString ''org.freedesktop.login1.Session'',
           DVariantMap [(''LockedHint'', DString ''true'')], DSlice []]
   \<and> lock_handleIncomingSignal
        (Some \<lparr>SigPath = ''/org/freedesktop/login1/session/_31'',
               Name = ''org.freedesktop.DBus.Properties.PropertiesChanged'',
               Body = [DString ''org.freedesktop.login1.Session'',
                       DVariantMap [(''LockedHint'', DString ''true'')], DSlice []]\<rparr>)
        \<lparr>conn = \<lparr>sent = [], script = []\<rparr>,
         loginSessionObject =
           \<lparr>Dest = ''org.freedesktop.login1'', Path = ''/org/freedesktop/login1/session/_31''\<rparr>,
         closeSignalHandler = OpenChan, lockSignals = {}, lockedHintSignals = {2},
         unlockSignals = {}, lockSignalActive = False, propertiesChangedActive = True,
         unlockSignalActive = False\<rparr>
        (\<lambda>c. \<lparr>buf = [], cap = 1, closed = False\<rparr>, \<lambda>c. \<lparr>buf = [], cap = 1, closed = False\<rparr>)
      = Panic (AssertionFailed ''PropertiesChanged signal's LockedHint is not a boolean'')"
  using dispatch_bad_shape_panics
    [of "\<lparr>SigPath = ''/org/freedesktop/login1'',
          Name = ''org.freedesktop.login1.Manager.PrepareForSleep'',
          Body = [DString ''yes'']\<rparr>"
        "\<lparr>i_conn = \<lparr>sent = [], script = []\<rparr>,
         login1 = \<lparr>Dest = ''org.freedesktop.login1'', Path = ''/org/freedesktop/login1''\<rparr>,
         i_closeSignalHandler = NilChan, prepareForSleepSubs = {1}, prepareForShutdownSubs = {}\<rparr>"
        "\<lambda>c. \<lparr>buf = [], cap = 1, closed = False\<rparr>"
        "\<lparr>SigPath = ''/org/freedesktop/login1/session/_31'',
               Name = ''org.freedesktop.DBus.Properties.PropertiesChanged'',
               Body = [DString ''org.freedesktop.login1.Session'',
                       DVariantMap [(''LockedHint'', DString ''true'')], DSlice []]\<rparr>"
        "\<lparr>conn = \<lparr>sent = [], script = []\<rparr>,
         loginSessionObject =
           \<lparr>Dest = ''org.freedesktop.login1'', Path = ''/org/freedesktop/login1/session/_31''\<rparr>,
         closeSignalHandler = OpenChan, lockSignals = {}, lockedHintSignals = {2},
         unlockSignals = {}, lockSignalActive = False, propertiesChangedActive = True,
         unlockSignalActive = False\<rparr>"
        "(\<lambda>c. \<lparr>buf = [], cap = 1, closed = False\<rparr>, \<lambda>c. \<lparr>buf = [], cap = 1, closed = False\<rparr>)"]
  by (simp add: inhibit_handleIncomingSignal_def lock_handleIncomingSignal_def index_def)

section \<open>Closing the lock\<close>

lemma removeLockSignal_keeps:
  "closeSignalHandler (snd (removeLockSignal dc)) = closeSignalHandler dc"
  "lockSignals (snd (removeLockSignal dc)) = lockSignals dc"
  "unlockSignals (snd (removeLockSignal dc)) = unlockSignals dc"
  "lockedHintSignals (snd (removeLockSignal dc)) = lockedHintSignals dc"
  by (simp_all add: removeLockSignal_def split: prod.splits option.splits)

lemma removeUnlockSignal_keeps:
  "closeSignalHandler (snd (removeUnlockSignal dc)) = closeSignalHandler dc"
  "lockSignals (snd (removeUnlockSignal dc)) = lockSignals dc"
  "unlockSignals (snd (removeUnlockSignal dc)) = unlockSignals dc"
  "lockedHintSignals (snd (removeUnlockSignal dc)) = lockedHintSignals dc"
  by (simp_all add: removeUnlockSignal_def split: prod.splits option.splits)

lemma removePropertiesChangedSignal_keeps:
  "closeSignalHandler (snd (removePropertiesChangedSignal dc)) = closeSignalHandler dc"
  "lockSignals (snd (removePropertiesChangedSignal dc)) = lockSignals dc"
  "unlockSignals (snd (removePropertiesChangedSignal dc)) = unlockSignals dc"
  "lockedHintSignals (snd (removePropertiesChangedSignal dc)) = lockedHintSignals dc"
  by (simp_all add: removePropertiesChangedSignal_def split: prod.splits option.splits)

lemma dbusCon_Close_cases:
  "\<exists>err dc'. closeSignalHandler dc' = closeSignalHandler dc
      \<and> lockSignals dc' = {} \<and> unlockSignals dc' = {} \<and> lockedHintSignals dc' = {}
      \<and> dbusCon_Close dc =
          (case close_builtin (closeSignalHandler dc) of
             Panic p \<Rightarrow> Panic p
           | Return ch \<Rightarrow> Return (err, dc'\<lparr>closeSignalHandler := ch\<rparr>))"
proof -
  obtain e1 dc2 where r1: "removeLockSignal (dc\<lparr>lockSignals := {}\<rparr>) = (e1, dc2)" by force
  obtain e2 dc4 where r2: "removeUnlockSignal (dc2\<lparr>unlockSignals := {}\<rparr>) = (e2, dc4)" by force
  obtain e3 dc6 where r3: "removePropertiesChangedSignal (dc4\<lparr>lockedHintSignals := {}\<rparr>) = (e3, dc6)"
    by force
  have k2: "closeSignalHandler dc2 = closeSignalHandler dc" "lockSignals dc2 = {}"
    using removeLockSignal_keeps [of "dc\<lparr>lockSignals := {}\<rparr>"] r1 by simp_all
  have k4: "closeSignalHandler dc4 = closeSignalHandler dc" "lockSignals dc4 = {}" "unlockSignals dc4 = {}"
    using removeUnlockSignal_keeps [of "dc2\<lparr>unlockSignals := {}\<rparr>"] r2 k2 by simp_all
  have k6: "closeSignalHandler dc6 = closeSignalHandler dc" "lockSignals dc6 = {}" "unlockSignals dc6 = {}"
      "lockedHintSignals dc6 = {}"
    using removePropertiesChangedSignal_keeps [of "dc4\<lparr>lockedHintSignals := {}\<rparr>"] r3 k4 by simp_all
  have "dbusCon_Close dc =
          (case close_builtin (closeSignalHandler dc) of
             Panic p \<Rightarrow> Panic p
           | Return ch \<Rightarrow>
               Return (errors_Join (errors_Join (errors_Join None e1) e2) e3,
                       dc6\<lparr>closeSignalHandler := ch\<rparr>))"
    by (simp add: dbusCon_Close_def Let_def r1 r2 r3 k6)
  with k6 show ?thesis by blast
qed

lemma lock_step_close_chan:
  "closeSignalHandler (snd (lock_step op dc)) = closeSignalHandler dc"
proof (cases op)
  case (AddLock c)
  then show ?thesis
    by (simp add: AddLockSignal_def Let_def split: option.splits prod.splits)
next
  case (RemoveLock c)
  then show ?thesis
    by (simp add: RemoveLockSignal_def Let_def removeLockSignal_keeps split: option.splits)
next
  case (AddUnlock c)
  then show ?thesis
    by (simp add: AddUnlockSignal_def Let_def split: option.splits prod.splits)
next
  case (RemoveUnlock c)
  then show ?thesis
    by (simp add: RemoveUnlockSignal_def Let_def removeUnlockSignal_keeps split: option.splits)
next
  case (AddLocked c)
  then show ?thesis
    by (simp add: AddLockedSignal_def Let_def split: option.splits prod.splits)
next
  case (RemoveLocked c)
  then show ?thesis
    by (simp add: RemoveLockedSignal_def Let_def removePropertiesChangedSignal_keeps
          split: option.splits)
qed

lemma lock_run_close_chan:
  "closeSignalHandler (lock_run ops dc) = closeSignalHandler dc"
  by (induction ops arbitrary: dc) (simp_all add: lock_step_close_chan)

lemma NewDbusSessionLock_open:
  assumes "NewDbusSessionLock sessionId bus = Return (Inr dc)"
  shows "closeSignalHandler dc = OpenChan"
  using assms
  by (auto simp: NewDbusSessionLock_def split: if_splits sum.splits prod.splits outcome.splits option.splits)

text \<open>
  C4, amended. On a lock returned by \<open>NewDbusSessionLock\<close>, after any subscribe and
  unsubscribe operations, the first \<open>Close\<close> returns without a panic, leaves the three
  subscriber sets empty and the shutdown channel closed. \<open>Close\<close> is not idempotent: a
  second \<open>Close\<close> on the same lock panics, closing the channel that is closed already.
\<close>

theorem dbusCon_Close_once:
  assumes "NewDbusSessionLock sessionId bus = Return (Inr dc0)"
  shows "\<exists>err dc'. dbusCon_Close (lock_run ops dc0) = Return (err, dc')
     \<and> lockSignals dc' = {} \<and> unlockSignals dc' = {} \<and> lockedHintSignals dc' = {}
     \<and> closeSignalHandler dc' = ClosedChan
     \<and> dbusCon_Close dc' = Panic CloseOfClosedChannel"
proof -
  let ?dc = "lock_run ops dc0"
  have o: "closeSignalHandler ?dc = OpenChan"
    using NewDbusSessionLock_open [OF assms] by (simp add: lock_run_close_chan)
  obtain err dc1 where c1: "closeSignalHandler dc1 = closeSignalHandler ?dc"
      "lockSignals dc1 = {}" "unlockSignals dc1 = {}" "lockedHintSignals dc1 = {}"
      "dbusCon_Close ?dc =
          (case close_builtin (closeSignalHandler ?dc) of
             Panic p \<Rightarrow> Panic p
           | Return ch \<Rightarrow> Return (err, dc1\<lparr>closeSignalHandler := ch\<rparr>))"
    using dbusCon_Close_cases [of ?dc] by blast
  let ?dc' = "dc1\<lparr>closeSignalHandler := ClosedChan\<rparr>"
  have r: "dbusCon_Close ?dc = Return (err, ?dc')" using c1(5) o by simp
  obtain err2 dc2 where c2: 
      "dbusCon_Close ?dc' =
          (case close_builtin (closeSignalHandler ?dc') of
             Panic p \<Rightarrow> Panic p
           | Return ch \<Rightarrow> Return (err2, dc2\<lparr>closeSignalHandler := ch\<rparr>))"
    using dbusCon_Close_cases [of ?dc'] by blast
  then have p: "dbusCon_Close ?dc' = Panic CloseOfClosedChannel" by simp
  from r p c1 show ?thesis by simp
qed


theorem dbusCon_Close_once_witness:
  "NewDbusSessionLock ''1'' (Inr \<lparr>sent = [], script = [Inr [DSlice [DSlice [DString ''1'', DUint32 1000, DString ''alice'',
            DString ''seat0'', DObjectPath ''/org/freedesktop/login1/session/_31'']]]]\<rparr>) =
     Return (Inr \<lparr>conn = \<lparr>sent = [Call ''/org/freedesktop/login1'' ''org.freedesktop.login1.Manager.ListSessions'' []], script = []\<rparr>,
          loginSessionObject = \<lparr>Dest = ''org.freedesktop.login1'', Path = ''/org/freedesktop/login1/session/_31''\<rparr>,
          closeSignalHandler = OpenChan, lockSignals = {}, lockedHintSignals = {},
          unlockSignals = {}, lockSignalActive = False, propertiesChangedActive = False,
          unlockSignalActive = False\<rparr>)
   \<and> (\<exists>err dc'. dbusCon_Close (lock_run [AddLock (Some 7)]
          \<lparr>conn = \<lparr>sent = [Call ''/org/freedesktop/login1'' ''org.freedesktop.login1.Manager.ListSessions'' []], script = []\<rparr>,
          loginSessionObject = \<lparr>Dest = ''org.freedesktop.login1'', Path = ''/org/freedesktop/login1/session/_31''\<rparr>,
          closeSignalHandler = OpenChan, lockSignals = {}, lockedHintSignals = {},
          unlockSignals = {}, lockSignalActive = False, propertiesChangedActive = False,
          unlockSignalActive = False\<rparr>) = Return (err, dc')
        \<and> dbusCon_Close dc' = Panic CloseOfClosedChannel)"
  using dbusCon_Close_once [of "''1''" "Inr \<lparr>sent = [], script = [Inr [DSlice [DSlice [DString ''1'', DUint32 1000, DString ''alice'',
            DString ''seat0'', DObjectPath ''/org/freedesktop/login1/session/_31'']]]]\<rparr>"
      "\<lparr>conn = \<lparr>sent = [Call ''/org/freedesktop/login1'' ''org.freedesktop.login1.Manager.ListSessions'' []], script = []\<rparr>,
          loginSessionObject = \<lparr>Dest = ''org.freedesktop.login1'', Path = ''/org/freedesktop/login1/session/_31''\<rparr>,
          closeSignalHandler = OpenChan, lockSignals = {}, lockedHintSignals = {},
          unlockSignals = {}, lockSignalActive = False, propertiesChangedActive = False,
          unlockSignalActive = False\<rparr>" "[AddLock (Some 7)]"]
  by (simp add: NewDbusSessionLock_def roundtrip_def index_def Conn_Object_def) blast

text \<open>
  C4, as stated, says that closing a facility twice does not panic. On a lock fresh from
  its constructor the first \<open>Close\<close> returns the nil error and the second one panics.
\<close>

theorem dbusCon_Close_twice_counterexample:
  "NewDbusSessionLock ''1'' (Inr \<lparr>sent = [], script = [Inr [DSlice [DSlice [DString ''1'', DUint32 1000, DString ''alice'',
            DString ''seat0'', DObjectPath ''/org/freedesktop/login1/session/_31'']]]]\<rparr>) =
     Return (Inr \<lparr>conn = \<lparr>sent = [Call ''/org/freedesktop/login1'' ''org.freedesktop.login1.Manager.ListSessions'' []], script = []\<rparr>,
          loginSessionObject = \<lparr>Dest = ''org.freedesktop.login1'', Path = ''/org/freedesktop/login1/session/_31''\<rparr>,
          closeSignalHandler = OpenChan, lockSignals = {}, lockedHintSignals = {},
          unlockSignals = {}, lockSignalActive = False, propertiesChangedActive = False,
          unlockSignalActive = False\<rparr>)
   \<and> dbusCon_Close \<lparr>conn = \<lparr>sent = [Call ''/org/freedesktop/login1'' ''org.freedesktop.login1.Manager.ListSessions'' []], script = []\<rparr>,
          loginSessionObject = \<lparr>Dest = ''org.freedesktop.login1'', Path = ''/org/freedesktop/login1/session/_31''\<rparr>,
          closeSignalHandler = OpenChan, lockSignals = {}, lockedHintSignals = {},
          unlockSignals = {}, lockSignalActive = False, propertiesChangedActive = False,
          unlockSignalActive = False\<rparr> =
     Return (None, \<lparr>conn = \<lparr>sent = [Call ''/org/freedesktop/login1'' ''org.freedesktop.login1.Manager.ListSessions'' []], script = []\<rparr>,
          loginSessionObject = \<lparr>Dest = ''org.freedesktop.login1'', Path = ''/org/freedesktop/login1/session/_31''\<rparr>,
          closeSignalHandler = ClosedChan, lockSignals = {}, lockedHintSignals = {},
          unlockSignals = {}, lockSignalActive = False, propertiesChangedActive = False,
          unlockSignalActive = False\<rparr>)
   \<and> dbusCon_Close \<lparr>conn = \<lparr>sent = [Call ''/org/freedesktop/login1'' ''org.freedesktop.login1.Manager.ListSessions'' []], script = []\<rparr>,
          loginSessionObject = \<lparr>Dest = ''org.freedesktop.login1'', Path = ''/org/freedesktop/login1/session/_31''\<rparr>,
          closeSignalHandler = ClosedChan, lockSignals = {}, lockedHintSignals = {},
          unlockSignals = {}, lockSignalActive = False, propertiesChangedActive = False,
          unlockSignalActive = False\<rparr> = Panic CloseOfClosedChannel"
  by (simp add: NewDbusSessionLock_def roundtrip_def index_def Conn_Object_def dbusCon_Close_def
        removeLockSignal_def removeUnlockSignal_def removePropertiesChangedSignal_def
        errors_Join_def)

section \<open>Constructing a lock for a session that is not listed\<close>

text \<open>
  C3 asks for an error when no listed session has the given identifier. The
  constructor is run here with identifier \<open>42\<close> against a reply that lists session
  \<open>1\<close> only: it returns a lock and no error, and the lock's session object is the
  manager object \<^verbatim>\<open>/org/freedesktop/login1\<close> that the struct literal put there, so the nil
  test after the loop does not fire.
\<close>

theorem NewDbusSessionLock_unknown_session:
  "NewDbusSessionLock ''42'' (Inr \<lparr>sent = [], script = [Inr [DSlice [DSlice [DString ''1'', DUint32 1000, DString ''alice'',
            DString ''seat0'', DObjectPath ''/org/freedesktop/login1/session/_31'']]]]\<rparr>) =
     Return (Inr \<lparr>conn = \<lparr>sent = [Call ''/org/freedesktop/login1'' ''org.freedesktop.login1.Manager.ListSessions'' []], script = []\<rparr>,
          loginSessionObject = \<lparr>Dest = ''org.freedesktop.login1'', Path = ''/org/freedesktop/login1''\<rparr>,
          closeSignalHandler = OpenChan, lockSignals = {}, lockedHintSignals = {},
          unlockSignals = {}, lockSignalActive = False, propertiesChangedActive = False,
          unlockSignalActive = False\<rparr>)"
  by (simp add: NewDbusSessionLock_def roundtrip_def index_def Conn_Object_def)

section \<open>A failed registration on the lock\<close>

text \<open>
  C2 asks that a first subscription whose add-match call fails leaves the subscriber
  set as it was. \<open>AddLockSignal\<close> stores the channel before it calls the transport: here
  the call fails, the error is returned, and channel \<open>7\<close> is in \<open>lockSignals\<close> all the
  same, with the activation flag still unset.
\<close>

theorem AddLockSignal_failed_match_keeps_channel:
  "AddLockSignal (Some 7) \<lparr>conn = \<lparr>sent = [Call ''/org/freedesktop/login1'' ''org.freedesktop.login1.Manager.ListSessions'' []], script = [Inl (Msg ''bus unavailable'')]\<rparr>,
          loginSessionObject = \<lparr>Dest = ''org.freedesktop.login1'', Path = ''/org/freedesktop/login1/session/_31''\<rparr>,
          closeSignalHandler = OpenChan, lockSignals = {}, lockedHintSignals = {},
          unlockSignals = {}, lockSignalActive = False, propertiesChangedActive = False,
          unlockSignalActive = False\<rparr> =
     (Some (Wrap ''failed to register Dbus Lock signal'' (Msg ''bus unavailable'')),
      \<lparr>conn = \<lparr>sent = [Call ''/org/freedesktop/login1'' ''org.freedesktop.login1.Manager.ListSessions'' []] @ [AddMatch \<lparr>MatchObjectPath = ''/org/freedesktop/login1/session/_31'',
                  MatchInterface = ''org.freedesktop.login1.Session'',
                  MatchSender = ''org.freedesktop.login1'', MatchMember = ''Lock''\<rparr>], script = []\<rparr>,
          loginSessionObject = \<lparr>Dest = ''org.freedesktop.login1'', Path = ''/org/freedesktop/login1/session/_31''\<rparr>,
          closeSignalHandler = OpenChan, lockSignals = {7}, lockedHintSignals = {},
          unlockSignals = {}, lockSignalActive = False, propertiesChangedActive = False,
          unlockSignalActive = False\<rparr>)"
  by (simp add: AddLockSignal_def lock_rule_def AddMatchSignal_def roundtrip_def)

section \<open>Subscriptions and the transport's match rules\<close>

lemma edge_requests_same [simp]: "edge_requests rule subs subs = []"
  by (simp add: edge_requests_def)

lemma AddMatchSignal_sent:
  "AddMatchSignal rule c = (e, c') \<Longrightarrow> sent c' = sent c @ [AddMatch rule]"
  by (auto simp: AddMatchSignal_def roundtrip_def split: list.splits)

lemma RemoveMatchSignal_sent:
  "RemoveMatchSignal rule c = (e, c') \<Longrightarrow> sent c' = sent c @ [RemoveMatch rule]"
  by (auto simp: RemoveMatchSignal_def roundtrip_def split: list.splits)


lemma AddLockSignal_edges:
  assumes inv: "lock_inv dc" and ok: "AddLockSignal c dc = (None, dc1)"
  shows "lock_inv dc1
     \<and> sent (conn dc1) = sent (conn dc) @ edge_requests (lock_rule dc) (lockSignals dc) (lockSignals dc1)
     \<and> unlockSignals dc1 = unlockSignals dc \<and> lockedHintSignals dc1 = lockedHintSignals dc"
proof (cases c)
  case None
  with ok show ?thesis by (simp add: AddLockSignal_def)
next
  case (Some ch)
  let ?dc' = "dc\<lparr>lockSignals := insert ch (lockSignals dc)\<rparr>"
  show ?thesis
  proof (cases "lockSignalActive dc")
    case True
    with ok Some have "dc1 = ?dc'" by (simp add: AddLockSignal_def Let_def)
    with inv True show ?thesis by (simp add: lock_inv_def edge_requests_def)
  next
    case False
    obtain e c' where m: "AddMatchSignal (lock_rule ?dc') (conn dc) = (e, c')" by force
    with ok Some False have e: "e = None" and d: "dc1 = ?dc'\<lparr>conn := c', lockSignalActive := True\<rparr>"
      by (auto simp: AddLockSignal_def Let_def split: option.splits)
    have r: "lock_rule ?dc' = lock_rule dc" by (simp add: lock_rule_def)
    from inv False have emp: "lockSignals dc = {}" by (simp add: lock_inv_def)
    from AddMatchSignal_sent [OF m] inv d emp r show ?thesis
      by (simp add: lock_inv_def edge_requests_def)
  qed
qed

lemma RemoveLockSignal_edges:
  assumes inv: "lock_inv dc" and ok: "RemoveLockSignal c dc = (None, dc1)"
  shows "lock_inv dc1
     \<and> sent (conn dc1) = sent (conn dc) @ edge_requests (lock_rule dc) (lockSignals dc) (lockSignals dc1)
     \<and> unlockSignals dc1 = unlockSignals dc \<and> lockedHintSignals dc1 = lockedHintSignals dc"
proof (cases c)
  case None
  with ok show ?thesis by (simp add: RemoveLockSignal_def)
next
  case (Some ch)
  let ?dc' = "dc\<lparr>lockSignals := lockSignals dc - {ch}\<rparr>"
  show ?thesis
  proof (cases "lockSignals dc - {ch} = {}")
    case False
    with ok Some have d: "dc1 = ?dc'" by (simp add: RemoveLockSignal_def Let_def)
    from False have "lockSignals dc \<noteq> {}" by auto
    with inv False d show ?thesis by (simp add: lock_inv_def edge_requests_def)
  next
    case True
    from ok Some True have h: "removeLockSignal (dc\<lparr>lockSignals := {}\<rparr>) = (None, dc1)"
      by (simp add: RemoveLockSignal_def Let_def)
    show ?thesis
    proof (cases "lockSignalActive dc")
      case False
      with h have d: "dc1 = dc\<lparr>lockSignals := {}\<rparr>"
        by (simp add: removeLockSignal_def)
      from inv False have "lockSignals dc = {}" by (simp add: lock_inv_def)
      with inv d show ?thesis by (simp add: lock_inv_def edge_requests_def)
    next
      case act: True
      obtain e c' where m:
        "RemoveMatchSignal (lock_rule (dc\<lparr>lockSignals := {}\<rparr>)) (conn dc) = (e, c')"
        by force
      with h act have d: "dc1 = dc\<lparr>lockSignals := {}, conn := c', lockSignalActive := False\<rparr>"
        by (auto simp: removeLockSignal_def split: option.splits)
      have r: "lock_rule (dc\<lparr>lockSignals := {}\<rparr>) = lock_rule dc"
        by (simp add: lock_rule_def)
      from inv act have ne: "lockSignals dc \<noteq> {}" by (simp add: lock_inv_def)
      from RemoveMatchSignal_sent [OF m] inv d ne r show ?thesis
        by (simp add: lock_inv_def edge_requests_def)
    qed
  qed
qed

lemma AddUnlockSignal_edges:
  assumes inv: "lock_inv dc" and ok: "AddUnlockSignal c dc = (None, dc1)"
  shows "lock_inv dc1
     \<and> sent (conn dc1) = sent (conn dc) @ edge_requests (unlock_rule dc) (unlockSignals dc) (unlockSignals dc1)
     \<and> lockSignals dc1 = lockSignals dc \<and> lockedHintSignals dc1 = lockedHintSignals dc"
proof (cases c)
  case None
  with ok show ?thesis by (simp add: AddUnlockSignal_def)
next
  case (Some ch)
  let ?dc' = "dc\<lparr>unlockSignals := insert ch (unlockSignals dc)\<rparr>"
  show ?thesis
  proof (cases "unlockSignalActive dc")
    case True
    with ok Some have "dc1 = ?dc'" by (simp add: AddUnlockSignal_def Let_def)
    with inv True show ?thesis by (simp add: lock_inv_def edge_requests_def)
  next
    case False
    obtain e c' where m: "AddMatchSignal (unlock_rule ?dc') (conn dc) = (e, c')" by force
    with ok Some False have e: "e = None" and d: "dc1 = ?dc'\<lparr>conn := c', unlockSignalActive := True\<rparr>"
      by (auto simp: AddUnlockSignal_def Let_def split: option.splits)
    have r: "unlock_rule ?dc' = unlock_rule dc" by (simp add: unlock_rule_def)
    from inv False have emp: "unlockSignals dc = {}" by (simp add: lock_inv_def)
    from AddMatchSignal_sent [OF m] inv d emp r show ?thesis
      by (simp add: lock_inv_def edge_requests_def)
  qed
qed

lemma RemoveUnlockSignal_edges:
  assumes inv: "lock_inv dc" and ok: "RemoveUnlockSignal c dc = (None, dc1)"
  shows "lock_inv dc1
     \<and> sent (conn dc1) = sent (conn dc) @ edge_requests (unlock_rule dc) (unlockSignals dc) (unlockSignals dc1)
     \<and> lockSignals dc1 = lockSignals dc \<and> lockedHintSignals dc1 = lockedHintSignals dc"
proof (cases c)
  case None
  with ok show ?thesis by (simp add: RemoveUnlockSignal_def)
next
  case (Some ch)
  let ?dc' = "dc\<lparr>unlockSignals := unlockSignals dc - {ch}\<rparr>"
  show ?thesis
  proof (cases "unlockSignals dc - {ch} = {}")
    case False
    with ok Some have d: "dc1 = ?dc'" by (simp add: RemoveUnlockSignal_def Let_def)
    from False have "unlockSignals dc \<noteq> {}" by auto
    with inv False d show ?thesis by (simp add: lock_inv_def edge_requests_def)
  next
    case True
    from ok Some True have h: "removeUnlockSignal (dc\<lparr>unlockSignals := {}\<rparr>) = (None, dc1)"
      by (simp add: RemoveUnlockSignal_def Let_def)
    show ?thesis
    proof (cases "unlockSignalActive dc")
      case False
      with h have d: "dc1 = dc\<lparr>unlockSignals := {}\<rparr>"
        by (simp add: removeUnlockSignal_def)
      from inv False have "unlockSignals dc = {}" by (simp add: lock_inv_def)
      with inv d show ?thesis by (simp add: lock_inv_def edge_requests_def)
    next
      case act: True
      obtain e c' where m:
        "RemoveMatchSignal (unlock_rule (dc\<lparr>unlockSignals := {}\<rparr>)) (conn dc) = (e, c')"
        by force
      with h act have d: "dc1 = dc\<lparr>unlockSignals := {}, conn := c', unlockSignalActive := False\<rparr>"
        by (auto simp: removeUnlockSignal_def split: option.splits)
      have r: "unlock_rule (dc\<lparr>unlockSignals := {}\<rparr>) = unlock_rule dc"
        by (simp add: unlock_rule_def)
      from inv act have ne: "unlockSignals dc \<noteq> {}" by (simp add: lock_inv_def)
      from RemoveMatchSignal_sent [OF m] inv d ne r show ?thesis
        by (simp add: lock_inv_def edge_requests_def)
    qed
  qed
qed

lemma AddLockedSignal_edges:
  assumes inv: "lock_inv dc" and ok: "AddLockedSignal c dc = (None, dc1)"
  shows "lock_inv dc1
     \<and> sent (conn dc1) = sent (conn dc) @ edge_requests (propertiesChanged_rule dc) (lockedHintSignals dc) (lockedHintSignals dc1)
     \<and> lockSignals dc1 = lockSignals dc \<and> unlockSignals dc1 = unlockSignals dc"
proof (cases c)
  case None
  with ok show ?thesis by (simp add: AddLockedSignal_def)
next
  case (Some ch)
  let ?dc' = "dc\<lparr>lockedHintSignals := insert ch (lockedHintSignals dc)\<rparr>"
  show ?thesis
  proof (cases "propertiesChangedActive dc")
    case True
    with ok Some have "dc1 = ?dc'" by (simp add: AddLockedSignal_def Let_def)
    with inv True show ?thesis by (simp add: lock_inv_def edge_requests_def)
  next
    case False
    obtain e c' where m: "AddMatchSignal (propertiesChanged_rule ?dc') (conn dc) = (e, c')" by force
    with ok Some False have e: "e = None" and d: "dc1 = ?dc'\<lparr>conn := c', propertiesChangedActive := True\<rparr>"
      by (auto simp: AddLockedSignal_def Let_def split: option.splits)
    have r: "propertiesChanged_rule ?dc' = propertiesChanged_rule dc" by (simp add: propertiesChanged_rule_def)
    from inv False have emp: "lockedHintSignals dc = {}" by (simp add: lock_inv_def)
    from AddMatchSignal_sent [OF m] inv d emp r show ?thesis
      by (simp add: lock_inv_def edge_requests_def)
  qed
qed

lemma RemoveLockedSignal_edges:
  assumes inv: "lock_inv dc" and ok: "RemoveLockedSignal c dc = (None, dc1)"
  shows "lock_inv dc1
     \<and> sent (conn dc1) = sent (conn dc) @ edge_requests (propertiesChanged_rule dc) (lockedHintSignals dc) (lockedHintSignals dc1)
     \<and> lockSignals dc1 = lockSignals dc \<and> unlockSignals dc1 = unlockSignals dc"
proof (cases c)
  case None
  with ok show ?thesis by (simp add: RemoveLockedSignal_def)
next
  case (Some ch)
  let ?dc' = "dc\<lparr>lockedHintSignals := lockedHintSignals dc - {ch}\<rparr>"
  show ?thesis
  proof (cases "lockedHintSignals dc - {ch} = {}")
    case False
    with ok Some have d: "dc1 = ?dc'" by (simp add: RemoveLockedSignal_def Let_def)
    from False have "lockedHintSignals dc \<noteq> {}" by auto
    with inv False d show ?thesis by (simp add: lock_inv_def edge_requests_def)
  next
    case True
    from ok Some True have h: "removePropertiesChangedSignal (dc\<lparr>lockedHintSignals := {}\<rparr>) = (None, dc1)"
      by (simp add: RemoveLockedSignal_def Let_def)
    show ?thesis
    proof (cases "propertiesChangedActive dc")
      case False
      with h have d: "dc1 = dc\<lparr>lockedHintSignals := {}\<rparr>"
        by (simp add: removePropertiesChangedSignal_def)
      from inv False have "lockedHintSignals dc = {}" by (simp add: lock_inv_def)
      with inv d show ?thesis by (simp add: lock_inv_def edge_requests_def)
    next
      case act: True
      obtain e c' where m:
        "RemoveMatchSignal (propertiesChanged_rule (dc\<lparr>lockedHintSignals := {}\<rparr>)) (conn dc) = (e, c')"
        by force
      with h act have d: "dc1 = dc\<lparr>lockedHintSignals := {}, conn := c', propertiesChangedActive := False\<rparr>"
        by (auto simp: removePropertiesChangedSignal_def split: option.splits)
      have r: "propertiesChanged_rule (dc\<lparr>lockedHintSignals := {}\<rparr>) = propertiesChanged_rule dc"
        by (simp add: propertiesChanged_rule_def)
      from inv act have ne: "lockedHintSignals dc \<noteq> {}" by (simp add: lock_inv_def)
      from RemoveMatchSignal_sent [OF m] inv d ne r show ?thesis
        by (simp add: lock_inv_def edge_requests_def)
    qed
  qed
qed

lemma lock_step_edges:
  assumes inv: "lock_inv dc" and ok: "lock_step op dc = (None, dc1)"
  shows "lock_inv dc1
     \<and> sent (conn dc1) = sent (conn dc)
          @ edge_requests (lock_rule dc) (lockSignals dc) (lockSignals dc1)
          @ edge_requests (unlock_rule dc) (unlockSignals dc) (unlockSignals dc1)
          @ edge_requests (propertiesChanged_rule dc) (lockedHintSignals dc) (lockedHintSignals dc1)"
proof (cases op)
  case (AddLock c)
  with AddLockSignal_edges [OF inv, of c dc1] ok show ?thesis by simp
next
  case (RemoveLock c)
  with RemoveLockSignal_edges [OF inv, of c dc1] ok show ?thesis by simp
next
  case (AddUnlock c)
  with AddUnlockSignal_edges [OF inv, of c dc1] ok show ?thesis by simp
next
  case (RemoveUnlock c)
  with RemoveUnlockSignal_edges [OF inv, of c dc1] ok show ?thesis by simp
next
  case (AddLocked c)
  with AddLockedSignal_edges [OF inv, of c dc1] ok show ?thesis by simp
next
  case (RemoveLocked c)
  with RemoveLockedSignal_edges [OF inv, of c dc1] ok show ?thesis by simp
qed

lemma lock_run_ok_inv:
  "lock_inv dc \<Longrightarrow> lock_run_ok ops dc = Some dc' \<Longrightarrow> lock_inv dc'"
proof (induction ops arbitrary: dc)
  case Nil
  then show ?case by simp
next
  case (Cons op ops)
  obtain e dc1 where s: "lock_step op dc = (e, dc1)" by force
  with Cons.prems(2) have e: "e = None" and r: "lock_run_ok ops dc1 = Some dc'"
    by (auto split: option.splits)
  from lock_step_edges [OF Cons.prems(1), of op dc1] s e have "lock_inv dc1" by simp
  from Cons.IH [OF this r] show ?case .
qed

lemma NewDbusSessionLock_inv:
  assumes "NewDbusSessionLock sessionId bus = Return (Inr dc)"
  shows "lock_inv dc"
  using assms
  by (auto simp: NewDbusSessionLock_def lock_inv_def
        split: if_splits sum.splits prod.splits outcome.splits option.splits)

lemma SubscribePrepareForSleep_requests:
  assumes ok: "SubscribePrepareForSleep c i = (None, i1)"
  shows "sent (i_conn i1) = sent (i_conn i)
           @ edge_requests (sleep_rule i) (prepareForSleepSubs i) (prepareForSleepSubs i1)"
proof (cases c)
  case None
  with ok show ?thesis by (simp add: SubscribePrepareForSleep_def)
next
  case (Some ch)
  show ?thesis
  proof (cases "prepareForSleepSubs i = {}")
    case False
    with ok Some have "i1 = i\<lparr>prepareForSleepSubs := insert ch (prepareForSleepSubs i)\<rparr>"
      by (simp add: SubscribePrepareForSleep_def)
    with False show ?thesis by (simp add: edge_requests_def)
  next
    case True
    obtain e c' where m: "AddMatchSignal (sleep_rule i) (i_conn i) = (e, c')" by force
    with ok Some True
    have "i1 = i\<lparr>i_conn := c', prepareForSleepSubs := insert ch (prepareForSleepSubs i)\<rparr>"
      by (auto simp: SubscribePrepareForSleep_def split: option.splits)
    with AddMatchSignal_sent [OF m] True show ?thesis by (simp add: edge_requests_def)
  qed
qed

lemma UnsubscribePrepareForSleep_requests:
  assumes ok: "UnsubscribePrepareForSleep c i = (None, i1)"
  shows "sent (i_conn i1) = sent (i_conn i)
           @ (if prepareForSleepSubs i1 = {} then [RemoveMatch (sleep_rule i)] else [])"
proof (cases c)
  case None
  with ok show ?thesis by (simp add: UnsubscribePrepareForSleep_def)
next
  case (Some ch)
  show ?thesis
  proof (cases "prepareForSleepSubs i - {ch} = {}")
    case False
    with ok Some have "i1 = i\<lparr>prepareForSleepSubs := prepareForSleepSubs i - {ch}\<rparr>"
      by (simp add: UnsubscribePrepareForSleep_def Let_def)
    with False show ?thesis by simp
  next
    case True
    from ok Some True
    have h: "removePrepareForSleepSignal (i\<lparr>prepareForSleepSubs := {}\<rparr>) = (None, i1)"
      by (simp add: UnsubscribePrepareForSleep_def Let_def)
    obtain e c' where m:
      "RemoveMatchSignal (sleep_rule (i\<lparr>prepareForSleepSubs := {}\<rparr>)) (i_conn i) = (e, c')"
      by force
    with h have d: "i1 = i\<lparr>prepareForSleepSubs := {}, i_conn := c'\<rparr>"
      by (auto simp: removePrepareForSleepSignal_def split: option.splits)
    have r: "sleep_rule (i\<lparr>prepareForSleepSubs := {}\<rparr>) = sleep_rule i"
      by (simp add: sleep_rule_def)
    from RemoveMatchSignal_sent [OF m] d r show ?thesis by simp
  qed
qed

lemma SubscribePrepareForShutdown_requests:
  assumes ok: "SubscribePrepareForShutdown c i = (None, i1)"
  shows "sent (i_conn i1) = sent (i_conn i)
           @ edge_requests (shutdown_rule i) (prepareForShutdownSubs i) (prepareForShutdownSubs i1)"
proof (cases c)
  case None
  with ok show ?thesis by (simp add: SubscribePrepareForShutdown_def)
next
  case (Some ch)
  show ?thesis
  proof (cases "prepareForShutdownSubs i = {}")
    case False
    with ok Some have "i1 = i\<lparr>prepareForShutdownSubs := insert ch (prepareForShutdownSubs i)\<rparr>"
      by (simp add: SubscribePrepareForShutdown_def)
    with False show ?thesis by (simp add: edge_requests_def)
  next
    case True
    obtain e c' where m: "AddMatchSignal (shutdown_rule i) (i_conn i) = (e, c')" by force
    with ok Some True
    have "i1 = i\<lparr>i_conn := c', prepareForShutdownSubs := insert ch (prepareForShutdownSubs i)\<rparr>"
      by (auto simp: SubscribePrepareForShutdown_def split: option.splits)
    with AddMatchSignal_sent [OF m] True show ?thesis by (simp add: edge_requests_def)
  qed
qed

lemma UnsubscribePrepareForShutdown_requests:
  assumes ok: "UnsubscribePrepareForShutdown c i = (None, i1)"
  shows "sent (i_conn i1) = sent (i_conn i)
           @ (if prepareForShutdownSubs i1 = {} then [RemoveMatch (shutdown_rule i)] else [])"
proof (cases c)
  case None
  with ok show ?thesis by (simp add: UnsubscribePrepareForShutdown_def)
next
  case (Some ch)
  show ?thesis
  proof (cases "prepareForShutdownSubs i - {ch} = {}")
    case False
    with ok Some have "i1 = i\<lparr>prepareForShutdownSubs := prepareForShutdownSubs i - {ch}\<rparr>"
      by (simp add: UnsubscribePrepareForShutdown_def Let_def)
    with False show ?thesis by simp
  next
    case True
    from ok Some True
    have h: "removePrepareForShutdownSignal (i\<lparr>prepareForShutdownSubs := {}\<rparr>) = (None, i1)"
      by (simp add: UnsubscribePrepareForShutdown_def Let_def)
    obtain e c' where m:
      "RemoveMatchSignal (shutdown_rule (i\<lparr>prepareForShutdownSubs := {}\<rparr>)) (i_conn i) = (e, c')"
      by force
    with h have d: "i1 = i\<lparr>prepareForShutdownSubs := {}, i_conn := c'\<rparr>"
      by (auto simp: removePrepareForShutdownSignal_def split: option.splits)
    have r: "shutdown_rule (i\<lparr>prepareForShutdownSubs := {}\<rparr>) = shutdown_rule i"
      by (simp add: shutdown_rule_def)
    from RemoveMatchSignal_sent [OF m] d r show ?thesis by simp
  qed
qed

text \<open>
  What the two facilities send to the transport. A lock fresh from its constructor has
  every activation flag in agreement with its subscriber set, and every run of successful
  subscribe and unsubscribe operations keeps it so; each successful operation on the lock
  sends exactly what the edges of the subscriber counts call for: one add-match on an
  edge from empty to non-empty, one remove-match on an edge from non-empty to empty,
  nothing otherwise. The Inhibitor's successful subscribe operations follow the same
  edges; for its unsubscribe operations the requests are determined by the subscriber set
  after the call alone.
\<close>

theorem subscription_follows_subscribers:
  "(NewDbusSessionLock sessionId bus = Return (Inr dc0) \<longrightarrow> lock_inv dc0)
   \<and> (lock_inv dc \<and> lock_run_ok ops dc = Some dc' \<longrightarrow> lock_inv dc')
   \<and> (lock_inv dcs \<and> lock_step op dcs = (None, dc1) \<longrightarrow>
        lock_inv dc1
        \<and> sent (conn dc1) = sent (conn dcs)
             @ edge_requests (lock_rule dcs) (lockSignals dcs) (lockSignals dc1)
             @ edge_requests (unlock_rule dcs) (unlockSignals dcs) (unlockSignals dc1)
             @ edge_requests (propertiesChanged_rule dcs) (lockedHintSignals dcs)
                 (lockedHintSignals dc1))
   \<and> (SubscribePrepareForSleep c i = (None, j1) \<longrightarrow>
        sent (i_conn j1) = sent (i_conn i)
          @ edge_requests (sleep_rule i) (prepareForSleepSubs i) (prepareForSleepSubs j1))
   \<and> (SubscribePrepareForShutdown c i = (None, j2) \<longrightarrow>
        sent (i_conn j2) = sent (i_conn i)
          @ edge_requests (shutdown_rule i) (prepareForShutdownSubs i) (prepareForShutdownSubs j2))
   \<and> (UnsubscribePrepareForSleep c i = (None, j3) \<longrightarrow>
        sent (i_conn j3) = sent (i_conn i)
          @ (if prepareForSleepSubs j3 = {} then [RemoveMatch (sleep_rule i)] else []))
   \<and> (UnsubscribePrepareForShutdown c i = (None, j4) \<longrightarrow>
        sent (i_conn j4) = sent (i_conn i)
          @ (if prepareForShutdownSubs j4 = {} then [RemoveMatch (shutdown_rule i)] else []))"
proof (intro conjI impI)
  assume "NewDbusSessionLock sessionId bus = Return (Inr dc0)"
  then show "lock_inv dc0" by (rule NewDbusSessionLock_inv)
next
  assume "lock_inv dc \<and> lock_run_ok ops dc = Some dc'"
  then show "lock_inv dc'" using lock_run_ok_inv [of dc ops dc'] by simp
next
  assume a: "lock_inv dcs \<and> lock_step op dcs = (None, dc1)"
  then have e: "lock_inv dc1
     \<and> sent (conn dc1) = sent (conn dcs)
          @ edge_requests (lock_rule dcs) (lockSignals dcs) (lockSignals dc1)
          @ edge_requests (unlock_rule dcs) (unlockSignals dcs) (unlockSignals dc1)
          @ edge_requests (propertiesChanged_rule dcs) (lockedHintSignals dcs) (lockedHintSignals dc1)"
    using lock_step_edges [of dcs op dc1] by simp
  from e show "lock_inv dc1" by (rule conjunct1)
  from e show "sent (conn dc1) = sent (conn dcs)
          @ edge_requests (lock_rule dcs) (lockSignals dcs) (lockSignals dc1)
          @ edge_requests (unlock_rule dcs) (unlockSignals dcs) (unlockSignals dc1)
          @ edge_requests (propertiesChanged_rule dcs) (lockedHintSignals dcs) (lockedHintSignals dc1)"
    by (rule conjunct2)
next
  assume "SubscribePrepareForSleep c i = (None, j1)"
  then show "sent (i_conn j1) = sent (i_conn i)
          @ edge_requests (sleep_rule i) (prepareForSleepSubs i) (prepareForSleepSubs j1)"
    by (rule SubscribePrepareForSleep_requests)
next
  assume "SubscribePrepareForShutdown c i = (None, j2)"
  then show "sent (i_conn j2) = sent (i_conn i)
          @ edge_requests (shutdown_rule i) (prepareForShutdownSubs i) (prepareForShutdownSubs j2)"
    by (rule SubscribePrepareForShutdown_requests)
next
  assume "UnsubscribePrepareForSleep c i = (None, j3)"
  then show "sent (i_conn j3) = sent (i_conn i)
          @ (if prepareForSleepSubs j3 = {} then [RemoveMatch (sleep_rule i)] else [])"
    by (rule UnsubscribePrepareForSleep_requests)
next
  assume "UnsubscribePrepareForShutdown c i = (None, j4)"
  then show "sent (i_conn j4) = sent (i_conn i)
          @ (if prepareForShutdownSubs j4 = {} then [RemoveMatch (shutdown_rule i)] else [])"
    by (rule UnsubscribePrepareForShutdown_requests)
qed

theorem subscription_follows_subscribers_witness:
  "NewDbusSessionLock ''1'' (Inr \<lparr>sent = [], script = [Inr [DSlice [DSlice [DString ''1'', DUint32 1000, DString ''alice'',
            DString ''seat0'', DObjectPath ''/org/freedesktop/login1/session/_31'']]]]\<rparr>) =
     Return (Inr \<lparr>conn = \<lparr>sent = [Call ''/org/freedesktop/login1'' ''org.freedesktop.login1.Manager.ListSessions'' []], script = []\<rparr>,
          loginSessionObject =
            \<lparr>Dest = ''org.freedesktop.login1'', Path = ''/org/freedesktop/login1/session/_31''\<rparr>,
          closeSignalHandler = OpenChan, lockSignals = {}, lockedHintSignals = {},
          unlockSignals = {}, lockSignalActive = False, propertiesChangedActive = False,
          unlockSignalActive = False\<rparr>)
   \<and> lock_inv \<lparr>conn = \<lparr>sent = [Call ''/org/freedesktop/login1'' ''org.freedesktop.login1.Manager.ListSessions'' []], script = []\<rparr>,
          loginSessionObject =
            \<lparr>Dest = ''org.freedesktop.login1'', Path = ''/org/freedesktop/login1/session/_31''\<rparr>,
          closeSignalHandler = OpenChan, lockSignals = {}, lockedHintSignals = {},
          unlockSignals = {}, lockSignalActive = False, propertiesChangedActive = False,
          unlockSignalActive = False\<rparr>
   \<and> lock_run_ok [AddLock (Some 7), RemoveLock (Some 7)]
        \<lparr>conn = \<lparr>sent = [Call ''/org/freedesktop/login1'' ''org.freedesktop.login1.Manager.ListSessions'' []], script = []\<rparr>,
          loginSessionObject =
            \<lparr>Dest = ''org.freedesktop.login1'', Path = ''/org/freedesktop/login1/session/_31''\<rparr>,
          closeSignalHandler = OpenChan, lockSignals = {}, lockedHintSignals = {},
          unlockSignals = {}, lockSignalActive = False, propertiesChangedActive = False,
          unlockSignalActive = False\<rparr> =
      Some \<lparr>conn = \<lparr>sent = [Call ''/org/freedesktop/login1'' ''org.freedesktop.login1.Manager.ListSessions'' [], AddMatch \<lparr>MatchObjectPath = ''/org/freedesktop/login1/session/_31'',
                  MatchInterface = ''org.freedesktop.login1.Session'',
                  MatchSender = ''org.freedesktop.login1'', MatchMember = ''Lock''\<rparr>, RemoveMatch \<lparr>MatchObjectPath = ''/org/freedesktop/login1/session/_31'',
                  MatchInterface = ''org.freedesktop.login1.Session'',
                  MatchSender = ''org.freedesktop.login1'', MatchMember = ''Lock''\<rparr>], script = []\<rparr>,
          loginSessionObject =
            \<lparr>Dest = ''org.freedesktop.login1'', Path = ''/org/freedesktop/login1/session/_31''\<rparr>,
          closeSignalHandler = OpenChan, lockSignals = {}, lockedHintSignals = {},
          unlockSignals = {}, lockSignalActive = False, propertiesChangedActive = False,
          unlockSignalActive = False\<rparr>
   \<and> lock_inv \<lparr>conn = \<lparr>sent = [Call ''/org/freedesktop/login1'' ''org.freedesktop.login1.Manager.ListSessions'' [], AddMatch \<lparr>MatchObjectPath = ''/org/freedesktop/login1/session/_31'',
                  MatchInterface = ''org.freedesktop.login1.Session'',
                  MatchSender = ''org.freedesktop.login1'', MatchMember = ''Lock''\<rparr>, RemoveMatch \<lparr>MatchObjectPath = ''/org/freedesktop/login1/session/_31'',
                  MatchInterface = ''org.freedesktop.login1.Session'',
                  MatchSender = ''org.freedesktop.login1'', MatchMember = ''Lock''\<rparr>], script = []\<rparr>,
          loginSessionObject =
            \<lparr>Dest = ''org.freedesktop.login1'', Path = ''/org/freedesktop/login1/session/_31''\<rparr>,
          closeSignalHandler = OpenChan, lockSignals = {}, lockedHintSignals = {},
          unlockSignals = {}, lockSignalActive = False, propertiesChangedActive = False,
          unlockSignalActive = False\<rparr>
   \<and> lock_step (AddLock (Some 7)) \<lparr>conn = \<lparr>sent = [Call ''/org/freedesktop/login1'' ''org.freedesktop.login1.Manager.ListSessions'' []], script = []\<rparr>,
          loginSessionObject =
            \<lparr>Dest = ''org.freedesktop.login1'', Path = ''/org/freedesktop/login1/session/_31''\<rparr>,
          closeSignalHandler = OpenChan, lockSignals = {}, lockedHintSignals = {},
          unlockSignals = {}, lockSignalActive = False, propertiesChangedActive = False,
          unlockSignalActive = False\<rparr> =
      (None, \<lparr>conn = \<lparr>sent = [Call ''/org/freedesktop/login1'' ''org.freedesktop.login1.Manager.ListSessions'' [], AddMatch \<lparr>MatchObjectPath = ''/org/freedesktop/login1/session/_31'',
                  MatchInterface = ''org.freedesktop.login1.Session'',
                  MatchSender = ''org.freedesktop.login1'', MatchMember = ''Lock''\<rparr>], script = []\<rparr>,
          loginSessionObject =
            \<lparr>Dest = ''org.freedesktop.login1'', Path = ''/org/freedesktop/login1/session/_31''\<rparr>,
          closeSignalHandler = OpenChan, lockSignals = {7}, lockedHintSignals = {},
          unlockSignals = {}, lockSignalActive = True, propertiesChangedActive = False,
          unlockSignalActive = False\<rparr>)
   \<and> lock_inv \<lparr>conn = \<lparr>sent = [Call ''/org/freedesktop/login1'' ''org.freedesktop.login1.Manager.ListSessions'' [], AddMatch \<lparr>MatchObjectPath = ''/org/freedesktop/login1/session/_31'',
                  MatchInterface = ''org.freedesktop.login1.Session'',
                  MatchSender = ''org.freedesktop.login1'', MatchMember = ''Lock''\<rparr>], script = []\<rparr>,
          loginSessionObject =
            \<lparr>Dest = ''org.freedesktop.login1'', Path = ''/org/freedesktop/login1/session/_31''\<rparr>,
          closeSignalHandler = OpenChan, lockSignals = {7}, lockedHintSignals = {},
          unlockSignals = {}, lockSignalActive = True, propertiesChangedActive = False,
          unlockSignalActive = False\<rparr>
   \<and> SubscribePrepareForSleep (Some 3) \<lparr>i_conn = \<lparr>sent = [], script = []\<rparr>,
          login1 = \<lparr>Dest = ''org.freedesktop.login1'', Path = ''/org/freedesktop/login1''\<rparr>,
          i_closeSignalHandler = NilChan, prepareForSleepSubs = {},
          prepareForShutdownSubs = {}\<rparr> =
      (None, \<lparr>i_conn = \<lparr>sent = [AddMatch \<lparr>MatchObjectPath = ''/org/freedesktop/login1'',
                  MatchInterface = ''org.freedesktop.login1.Manager'',
                  MatchSender = ''org.freedesktop.login1'', MatchMember = ''PrepareForSleep''\<rparr>], script = []\<rparr>,
          login1 = \<lparr>Dest = ''org.freedesktop.login1'', Path = ''/org/freedesktop/login1''\<rparr>,
          i_closeSignalHandler = NilChan, prepareForSleepSubs = {3},
          prepareForShutdownSubs = {}\<rparr>)
   \<and> UnsubscribePrepareForSleep (Some 3) \<lparr>i_conn = \<lparr>sent = [AddMatch \<lparr>MatchObjectPath = ''/org/freedesktop/login1'',
                  MatchInterface = ''org.freedesktop.login1.Manager'',
                  MatchSender = ''org.freedesktop.login1'', MatchMember = ''PrepareForSleep''\<rparr>], script = []\<rparr>,
          login1 = \<lparr>Dest = ''org.freedesktop.login1'', Path = ''/org/freedesktop/login1''\<rparr>,
          i_closeSignalHandler = NilChan, prepareForSleepSubs = {3},
          prepareForShutdownSubs = {}\<rparr> =
      (None, \<lparr>i_conn = \<lparr>sent = [AddMatch \<lparr>MatchObjectPath = ''/org/freedesktop/login1'',
                  MatchInterface = ''org.freedesktop.login1.Manager'',
                  MatchSender = ''org.freedesktop.login1'', MatchMember = ''PrepareForSleep''\<rparr>, RemoveMatch \<lparr>MatchObjectPath = ''/org/freedesktop/login1'',
                  MatchInterface = ''org.freedesktop.login1.Manager'',
                  MatchSender = ''org.freedesktop.login1'', MatchMember = ''PrepareForSleep''\<rparr>], script = []\<rparr>,
          login1 = \<lparr>Dest = ''org.freedesktop.login1'', Path = ''/org/freedesktop/login1''\<rparr>,
          i_closeSignalHandler = NilChan, prepareForSleepSubs = {},
          prepareForShutdownSubs = {}\<rparr>)
   \<and> sent (i_conn \<lparr>i_conn = \<lparr>sent = [AddMatch \<lparr>MatchObjectPath = ''/org/freedesktop/login1'',
                  MatchInterface = ''org.freedesktop.login1.Manager'',
                  MatchSender = ''org.freedesktop.login1'', MatchMember = ''PrepareForSleep''\<rparr>, RemoveMatch \<lparr>MatchObjectPath = ''/org/freedesktop/login1'',
                  MatchInterface = ''org.freedesktop.login1.Manager'',
                  MatchSender = ''org.freedesktop.login1'', MatchMember = ''PrepareForSleep''\<rparr>], script = []\<rparr>,
          login1 = \<lparr>Dest = ''org.freedesktop.login1'', Path = ''/org/freedesktop/login1''\<rparr>,
          i_closeSignalHandler = NilChan, prepareForSleepSubs = {},
          prepareForShutdownSubs = {}\<rparr>) =
       sent (i_conn \<lparr>i_conn = \<lparr>sent = [AddMatch \<lparr>MatchObjectPath = ''/org/freedesktop/login1'',
                  MatchInterface = ''org.freedesktop.login1.Manager'',
                  MatchSender = ''org.freedesktop.login1'', MatchMember = ''PrepareForSleep''\<rparr>], script = []\<rparr>,
          login1 = \<lparr>Dest = ''org.freedesktop.login1'', Path = ''/org/freedesktop/login1''\<rparr>,
          i_closeSignalHandler = NilChan, prepareForSleepSubs = {3},
          prepareForShutdownSubs = {}\<rparr>)
       @ [RemoveMatch (sleep_rule \<lparr>i_conn = \<lparr>sent = [AddMatch \<lparr>MatchObjectPath = ''/org/freedesktop/login1'',
                  MatchInterface = ''org.freedesktop.login1.Manager'',
                  MatchSender = ''org.freedesktop.login1'', MatchMember = ''PrepareForSleep''\<rparr>], script = []\<rparr>,
          login1 = \<lparr>Dest = ''org.freedesktop.login1'', Path = ''/org/freedesktop/login1''\<rparr>,
          i_closeSignalHandler = NilChan, prepareForSleepSubs = {3},
          prepareForShutdownSubs = {}\<rparr>)]"
proof -
  have h1: "NewDbusSessionLock ''1'' (Inr \<lparr>sent = [], script = [Inr [DSlice [DSlice [DString ''1'', DUint32 1000, DString ''alice'',
            DString ''seat0'', DObjectPath ''/org/freedesktop/login1/session/_31'']]]]\<rparr>) =
     Return (Inr \<lparr>conn = \<lparr>sent = [Call ''/org/freedesktop/login1'' ''org.freedesktop.login1.Manager.ListSessions'' []], script = []\<rparr>,
          loginSessionObject =
            \<lparr>Dest = ''org.freedesktop.login1'', Path = ''/org/freedesktop/login1/session/_31''\<rparr>,
          closeSignalHandler = OpenChan, lockSignals = {}, lockedHintSignals = {},
          unlockSignals = {}, lockSignalActive = False, propertiesChangedActive = False,
          unlockSignalActive = False\<rparr>)"
    by (simp add: NewDbusSessionLock_def roundtrip_def index_def Conn_Object_def)
  have s1: "lock_step (AddLock (Some 7)) \<lparr>conn = \<lparr>sent = [Call ''/org/freedesktop/login1'' ''org.freedesktop.login1.Manager.ListSessions'' []], script = []\<rparr>,
          loginSessionObject =
            \<lparr>Dest = ''org.freedesktop.login1'', Path = ''/org/freedesktop/login1/session/_31''\<rparr>,
          closeSignalHandler = OpenChan, lockSignals = {}, lockedHintSignals = {},
          unlockSignals = {}, lockSignalActive = False, propertiesChangedActive = False,
          unlockSignalActive = False\<rparr> =
      (None, \<lparr>conn = \<lparr>sent = [Call ''/org/freedesktop/login1'' ''org.freedesktop.login1.Manager.ListSessions'' [], AddMatch \<lparr>MatchObjectPath = ''/org/freedesktop/login1/session/_31'',
                  MatchInterface = ''org.freedesktop.login1.Session'',
                  MatchSender = ''org.freedesktop.login1'', MatchMember = ''Lock''\<rparr>], script = []\<rparr>,
          loginSessionObject =
            \<lparr>Dest = ''org.freedesktop.login1'', Path = ''/org/freedesktop/login1/session/_31''\<rparr>,
          closeSignalHandler = OpenChan, lockSignals = {7}, lockedHintSignals = {},
          unlockSignals = {}, lockSignalActive = True, propertiesChangedActive = False,
          unlockSignalActive = False\<rparr>)"
    by (simp add: AddLockSignal_def lock_rule_def AddMatchSignal_def roundtrip_def)
  have s2: "lock_step (RemoveLock (Some 7)) \<lparr>conn = \<lparr>sent = [Call ''/org/freedesktop/login1'' ''org.freedesktop.login1.Manager.ListSessions'' [], AddMatch \<lparr>MatchObjectPath = ''/org/freedesktop/login1/session/_31'',
                  MatchInterface = ''org.freedesktop.login1.Session'',
                  MatchSender = ''org.freedesktop.login1'', MatchMember = ''Lock''\<rparr>], script = []\<rparr>,
          loginSessionObject =
            \<lparr>Dest = ''org.freedesktop.login1'', Path = ''/org/freedesktop/login1/session/_31''\<rparr>,
          closeSignalHandler = OpenChan, lockSignals = {7}, lockedHintSignals = {},
          unlockSignals = {}, lockSignalActive = True, propertiesChangedActive = False,
          unlockSignalActive = False\<rparr> =
      (None, \<lparr>conn = \<lparr>sent = [Call ''/org/freedesktop/login1'' ''org.freedesktop.login1.Manager.ListSessions'' [], AddMatch \<lparr>MatchObjectPath = ''/org/freedesktop/login1/session/_31'',
                  MatchInterface = ''org.freedesktop.login1.Session'',
                  MatchSender = ''org.freedesktop.login1'', MatchMember = ''Lock''\<rparr>, RemoveMatch \<lparr>MatchObjectPath = ''/org/freedesktop/login1/session/_31'',
                  MatchInterface = ''org.freedesktop.login1.Session'',
                  MatchSender = ''org.freedesktop.login1'', MatchMember = ''Lock''\<rparr>], script = []\<rparr>,
          loginSessionObject =
            \<lparr>Dest = ''org.freedesktop.login1'', Path = ''/org/freedesktop/login1/session/_31''\<rparr>,
          closeSignalHandler = OpenChan, lockSignals = {}, lockedHintSignals = {},
          unlockSignals = {}, lockSignalActive = False, propertiesChangedActive = False,
          unlockSignalActive = False\<rparr>)"
    by (simp add: RemoveLockSignal_def removeLockSignal_def lock_rule_def RemoveMatchSignal_def
          roundtrip_def)
  have h2: "lock_run_ok [AddLock (Some 7), RemoveLock (Some 7)]
        \<lparr>conn = \<lparr>sent = [Call ''/org/freedesktop/login1'' ''org.freedesktop.login1.Manager.ListSessions'' []], script = []\<rparr>,
          loginSessionObject =
            \<lparr>Dest = ''org.freedesktop.login1'', Path = ''/org/freedesktop/login1/session/_31''\<rparr>,
          closeSignalHandler = OpenChan, lockSignals = {}, lockedHintSignals = {},
          unlockSignals = {}, lockSignalActive = False, propertiesChangedActive = False,
          unlockSignalActive = False\<rparr> =
      Some \<lparr>conn = \<lparr>sent = [Call ''/org/freedesktop/login1'' ''org.freedesktop.login1.Manager.ListSessions'' [], AddMatch \<lparr>MatchObjectPath = ''/org/freedesktop/login1/session/_31'',
                  MatchInterface = ''org.freedesktop.login1.Session'',
                  MatchSender = ''org.freedesktop.login1'', MatchMember = ''Lock''\<rparr>, RemoveMatch \<lparr>MatchObjectPath = ''/org/freedesktop/login1/session/_31'',
                  MatchInterface = ''org.freedesktop.login1.Session'',
                  MatchSender = ''org.freedesktop.login1'', MatchMember = ''Lock''\<rparr>], script = []\<rparr>,
          loginSessionObject =
            \<lparr>Dest = ''org.freedesktop.login1'', Path = ''/org/freedesktop/login1/session/_31''\<rparr>,
          closeSignalHandler = OpenChan, lockSignals = {}, lockedHintSignals = {},
          unlockSignals = {}, lockSignalActive = False, propertiesChangedActive = False,
          unlockSignalActive = False\<rparr>"
    by (simp only: lock_run_ok.simps s1 s2 prod.case option.case)
  have h4: "SubscribePrepareForSleep (Some 3) \<lparr>i_conn = \<lparr>sent = [], script = []\<rparr>,
          login1 = \<lparr>Dest = ''org.freedesktop.login1'', Path = ''/org/freedesktop/login1''\<rparr>,
          i_closeSignalHandler = NilChan, prepareForSleepSubs = {},
          prepareForShutdownSubs = {}\<rparr> =
      (None, \<lparr>i_conn = \<lparr>sent = [AddMatch \<lparr>MatchObjectPath = ''/org/freedesktop/login1'',
                  MatchInterface = ''org.freedesktop.login1.Manager'',
                  MatchSender = ''org.freedesktop.login1'', MatchMember = ''PrepareForSleep''\<rparr>], script = []\<rparr>,
          login1 = \<lparr>Dest = ''org.freedesktop.login1'', Path = ''/org/freedesktop/login1''\<rparr>,
          i_closeSignalHandler = NilChan, prepareForSleepSubs = {3},
          prepareForShutdownSubs = {}\<rparr>)"
    by (simp add: SubscribePrepareForSleep_def sleep_rule_def AddMatchSignal_def roundtrip_def
          dbusDest_def dbusManagerInterface_def)
  have h5: "UnsubscribePrepareForSleep (Some 3) \<lparr>i_conn = \<lparr>sent = [AddMatch \<lparr>MatchObjectPath = ''/org/freedesktop/login1'',
                  MatchInterface = ''org.freedesktop.login1.Manager'',
                  MatchSender = ''org.freedesktop.login1'', MatchMember = ''PrepareForSleep''\<rparr>], script = []\<rparr>,
          login1 = \<lparr>Dest = ''org.freedesktop.login1'', Path = ''/org/freedesktop/login1''\<rparr>,
          i_closeSignalHandler = NilChan, prepareForSleepSubs = {3},
          prepareForShutdownSubs = {}\<rparr> =
      (None, \<lparr>i_conn = \<lparr>sent = [AddMatch \<lparr>MatchObjectPath = ''/org/freedesktop/login1'',
                  MatchInterface = ''org.freedesktop.login1.Manager'',
                  MatchSender = ''org.freedesktop.login1'', MatchMember = ''PrepareForSleep''\<rparr>, RemoveMatch \<lparr>MatchObjectPath = ''/org/freedesktop/login1'',
                  MatchInterface = ''org.freedesktop.login1.Manager'',
                  MatchSender = ''org.freedesktop.login1'', MatchMember = ''PrepareForSleep''\<rparr>], script = []\<rparr>,
          login1 = \<lparr>Dest = ''org.freedesktop.login1'', Path = ''/org/freedesktop/login1''\<rparr>,
          i_closeSignalHandler = NilChan, prepareForSleepSubs = {},
          prepareForShutdownSubs = {}\<rparr>)"
    by (simp add: UnsubscribePrepareForSleep_def removePrepareForSleepSignal_def sleep_rule_def
          RemoveMatchSignal_def roundtrip_def dbusDest_def dbusManagerInterface_def)
  have a1: "lock_inv \<lparr>conn = \<lparr>sent = [Call ''/org/freedesktop/login1'' ''org.freedesktop.login1.Manager.ListSessions'' []], script = []\<rparr>,
          loginSessionObject =
            \<lparr>Dest = ''org.freedesktop.login1'', Path = ''/org/freedesktop/login1/session/_31''\<rparr>,
          closeSignalHandler = OpenChan, lockSignals = {}, lockedHintSignals = {},
          unlockSignals = {}, lockSignalActive = False, propertiesChangedActive = False,
          unlockSignalActive = False\<rparr>"
    by (rule subscription_follows_subscribers [THEN conjunct1, THEN mp, OF h1])
  have a2: "lock_inv \<lparr>conn = \<lparr>sent = [Call ''/org/freedesktop/login1'' ''org.freedesktop.login1.Manager.ListSessions'' [], AddMatch \<lparr>MatchObjectPath = ''/org/freedesktop/login1/session/_31'',
                  MatchInterface = ''org.freedesktop.login1.Session'',
                  MatchSender = ''org.freedesktop.login1'', MatchMember = ''Lock''\<rparr>, RemoveMatch \<lparr>MatchObjectPath = ''/org/freedesktop/login1/session/_31'',
                  MatchInterface = ''org.freedesktop.login1.Session'',
                  MatchSender = ''org.freedesktop.login1'', MatchMember = ''Lock''\<rparr>], script = []\<rparr>,
          loginSessionObject =
            \<lparr>Dest = ''org.freedesktop.login1'', Path = ''/org/freedesktop/login1/session/_31''\<rparr>,
          closeSignalHandler = OpenChan, lockSignals = {}, lockedHintSignals = {},
          unlockSignals = {}, lockSignalActive = False, propertiesChangedActive = False,
          unlockSignalActive = False\<rparr>"
    by (rule subscription_follows_subscribers
          [THEN conjunct2, THEN conjunct1, THEN mp, OF conjI [OF a1 h2]])
  have a3: "lock_inv \<lparr>conn = \<lparr>sent = [Call ''/org/freedesktop/login1'' ''org.freedesktop.login1.Manager.ListSessions'' [], AddMatch \<lparr>MatchObjectPath = ''/org/freedesktop/login1/session/_31'',
                  MatchInterface = ''org.freedesktop.login1.Session'',
                  MatchSender = ''org.freedesktop.login1'', MatchMember = ''Lock''\<rparr>], script = []\<rparr>,
          loginSessionObject =
            \<lparr>Dest = ''org.freedesktop.login1'', Path = ''/org/freedesktop/login1/session/_31''\<rparr>,
          closeSignalHandler = OpenChan, lockSignals = {7}, lockedHintSignals = {},
          unlockSignals = {}, lockSignalActive = True, propertiesChangedActive = False,
          unlockSignalActive = False\<rparr>"
    by (rule subscription_follows_subscribers
          [THEN conjunct2, THEN conjunct2, THEN conjunct1, THEN mp, OF conjI [OF a1 s1],
           THEN conjunct1])
  have a5: "sent (i_conn \<lparr>i_conn = \<lparr>sent = [AddMatch \<lparr>MatchObjectPath = ''/org/freedesktop/login1'',
                  MatchInterface = ''org.freedesktop.login1.Manager'',
                  MatchSender = ''org.freedesktop.login1'', MatchMember = ''PrepareForSleep''\<rparr>, RemoveMatch \<lparr>MatchObjectPath = ''/org/freedesktop/login1'',
                  MatchInterface = ''org.freedesktop.login1.Manager'',
                  MatchSender = ''org.freedesktop.login1'', MatchMember = ''PrepareForSleep''\<rparr>], script = []\<rparr>,
          login1 = \<lparr>Dest = ''org.freedesktop.login1'', Path = ''/org/freedesktop/login1''\<rparr>,
          i_closeSignalHandler = NilChan, prepareForSleepSubs = {},
          prepareForShutdownSubs = {}\<rparr>) =
       sent (i_conn \<lparr>i_conn = \<lparr>sent = [AddMatch \<lparr>MatchObjectPath = ''/org/freedesktop/login1'',
                  MatchInterface = ''org.freedesktop.login1.Manager'',
                  MatchSender = ''org.freedesktop.login1'', MatchMember = ''PrepareForSleep''\<rparr>], script = []\<rparr>,
          login1 = \<lparr>Dest = ''org.freedesktop.login1'', Path = ''/org/freedesktop/login1''\<rparr>,
          i_closeSignalHandler = NilChan, prepareForSleepSubs = {3},
          prepareForShutdownSubs = {}\<rparr>)
       @ (if prepareForSleepSubs \<lparr>i_conn = \<lparr>sent = [AddMatch \<lparr>MatchObjectPath = ''/org/freedesktop/login1'',
                  MatchInterface = ''org.freedesktop.login1.Manager'',
                  MatchSender = ''org.freedesktop.login1'', MatchMember = ''PrepareForSleep''\<rparr>, RemoveMatch \<lparr>MatchObjectPath = ''/org/freedesktop/login1'',
                  MatchInterface = ''org.freedesktop.login1.Manager'',
                  MatchSender = ''org.freedesktop.login1'', MatchMember = ''PrepareForSleep''\<rparr>], script = []\<rparr>,
          login1 = \<lparr>Dest = ''org.freedesktop.login1'', Path = ''/org/freedesktop/login1''\<rparr>,
          i_closeSignalHandler = NilChan, prepareForSleepSubs = {},
          prepareForShutdownSubs = {}\<rparr> = {}
          then [RemoveMatch (sleep_rule \<lparr>i_conn = \<lparr>sent = [AddMatch \<lparr>MatchObjectPath = ''/org/freedesktop/login1'',
                  MatchInterface = ''org.freedesktop.login1.Manager'',
                  MatchSender = ''org.freedesktop.login1'', MatchMember = ''PrepareForSleep''\<rparr>], script = []\<rparr>,
          login1 = \<lparr>Dest = ''org.freedesktop.login1'', Path = ''/org/freedesktop/login1''\<rparr>,
          i_closeSignalHandler = NilChan, prepareForSleepSubs = {3},
          prepareForShutdownSubs = {}\<rparr>)] else [])"
    by (rule subscription_follows_subscribers
          [THEN conjunct2, THEN conjunct2, THEN conjunct2, THEN conjunct2, THEN conjunct2,
           THEN conjunct1, THEN mp, OF h5])
  have a5': "sent (i_conn \<lparr>i_conn = \<lparr>sent = [AddMatch \<lparr>MatchObjectPath = ''/org/freedesktop/login1'',
                  MatchInterface = ''org.freedesktop.login1.Manager'',
                  MatchSender = ''org.freedesktop.login1'', MatchMember = ''PrepareForSleep''\<rparr>, RemoveMatch \<lparr>MatchObjectPath = ''/org/freedesktop/login1'',
                  MatchInterface = ''org.freedesktop.login1.Manager'',
                  MatchSender = ''org.freedesktop.login1'', MatchMember = ''PrepareForSleep''\<rparr>], script = []\<rparr>,
          login1 = \<lparr>Dest = ''org.freedesktop.login1'', Path = ''/org/freedesktop/login1''\<rparr>,
          i_closeSignalHandler = NilChan, prepareForSleepSubs = {},
          prepareForShutdownSubs = {}\<rparr>) =
       sent (i_conn \<lparr>i_conn = \<lparr>sent = [AddMatch \<lparr>MatchObjectPath = ''/org/freedesktop/login1'',
                  MatchInterface = ''org.freedesktop.login1.Manager'',
                  MatchSender = ''org.freedesktop.login1'', MatchMember = ''PrepareForSleep''\<rparr>], script = []\<rparr>,
          login1 = \<lparr>Dest = ''org.freedesktop.login1'', Path = ''/org/freedesktop/login1''\<rparr>,
          i_closeSignalHandler = NilChan, prepareForSleepSubs = {3},
          prepareForShutdownSubs = {}\<rparr>)
       @ [RemoveMatch (sleep_rule \<lparr>i_conn = \<lparr>sent = [AddMatch \<lparr>MatchObjectPath = ''/org/freedesktop/login1'',
                  MatchInterface = ''org.freedesktop.login1.Manager'',
                  MatchSender = ''org.freedesktop.login1'', MatchMember = ''PrepareForSleep''\<rparr>], script = []\<rparr>,
          login1 = \<lparr>Dest = ''org.freedesktop.login1'', Path = ''/org/freedesktop/login1''\<rparr>,
          i_closeSignalHandler = NilChan, prepareForSleepSubs = {3},
          prepareForShutdownSubs = {}\<rparr>)]"
    using a5 by simp
  from h1 a1 h2 a2 s1 a3 h4 h5 a5' show ?thesis by (intro conjI)
qed

text \<open>
  C1 asks that remove-match be sent on the edge from one subscriber to none and nowhere
  else, so that the transport's subscription is active exactly while there is a
  subscriber. The lock does that, by its activation flags. The Inhibitor's unsubscribe
  is run here on an Inhibitor fresh from \<open>New\<close>, with no subscriber: the call succeeds
  and sends remove-match, where the edges of the count call for no request. It is run
  again on the connection that \<^verbatim>\<open>dbus.SystemBus()\<close> shares between Inhibitors, after
  another Inhibitor has subscribed channel \<open>5\<close> over it: the call succeeds and the
  connection has sent remove-match for the rule that the other Inhibitor's subscriber
  depends on.
\<close>

theorem Unsubscribe_on_empty_set_sends_remove_match:
  "New (Inr \<lparr>sent = [], script = []\<rparr>) =
     Inr \<lparr>i_conn = \<lparr>sent = [], script = []\<rparr>,
          login1 = \<lparr>Dest = ''org.freedesktop.login1'', Path = ''/org/freedesktop/login1''\<rparr>,
          i_closeSignalHandler = NilChan, prepareForSleepSubs = {},
          prepareForShutdownSubs = {}\<rparr>
   \<and> UnsubscribePrepareForSleep (Some 3) \<lparr>i_conn = \<lparr>sent = [], script = []\<rparr>,
          login1 = \<lparr>Dest = ''org.freedesktop.login1'', Path = ''/org/freedesktop/login1''\<rparr>,
          i_closeSignalHandler = NilChan, prepareForSleepSubs = {},
          prepareForShutdownSubs = {}\<rparr> =
      (None, \<lparr>i_conn = \<lparr>sent = [RemoveMatch \<lparr>MatchObjectPath = ''/org/freedesktop/login1'',
                  MatchInterface = ''org.freedesktop.login1.Manager'',
                  MatchSender = ''org.freedesktop.login1'', MatchMember = ''PrepareForSleep''\<rparr>], script = []\<rparr>,
          login1 = \<lparr>Dest = ''org.freedesktop.login1'', Path = ''/org/freedesktop/login1''\<rparr>,
          i_closeSignalHandler = NilChan, prepareForSleepSubs = {},
          prepareForShutdownSubs = {}\<rparr>)
   \<and> edge_requests \<lparr>MatchObjectPath = ''/org/freedesktop/login1'',
                  MatchInterface = ''org.freedesktop.login1.Manager'',
                  MatchSender = ''org.freedesktop.login1'', MatchMember = ''PrepareForSleep''\<rparr> {} {} = []
   \<and> SubscribePrepareForSleep (Some 5) \<lparr>i_conn = \<lparr>sent = [], script = []\<rparr>,
          login1 = \<lparr>Dest = ''org.freedesktop.login1'', Path = ''/org/freedesktop/login1''\<rparr>,
          i_closeSignalHandler = NilChan, prepareForSleepSubs = {},
          prepareForShutdownSubs = {}\<rparr> =
      (None, \<lparr>i_conn = \<lparr>sent = [AddMatch \<lparr>MatchObjectPath = ''/org/freedesktop/login1'',
                  MatchInterface = ''org.freedesktop.login1.Manager'',
                  MatchSender = ''org.freedesktop.login1'', MatchMember = ''PrepareForSleep''\<rparr>], script = []\<rparr>,
          login1 = \<lparr>Dest = ''org.freedesktop.login1'', Path = ''/org/freedesktop/login1''\<rparr>,
          i_closeSignalHandler = NilChan, prepareForSleepSubs = {5},
          prepareForShutdownSubs = {}\<rparr>)
   \<and> UnsubscribePrepareForSleep (Some 3) \<lparr>i_conn = \<lparr>sent = [AddMatch \<lparr>MatchObjectPath = ''/org/freedesktop/login1'',
                  MatchInterface = ''org.freedesktop.login1.Manager'',
                  MatchSender = ''org.freedesktop.login1'', MatchMember = ''PrepareForSleep''\<rparr>], script = []\<rparr>,
          login1 = \<lparr>Dest = ''org.freedesktop.login1'', Path = ''/org/freedesktop/login1''\<rparr>,
          i_closeSignalHandler = NilChan, prepareForSleepSubs = {},
          prepareForShutdownSubs = {}\<rparr> =
      (None, \<lparr>i_conn = \<lparr>sent = [AddMatch \<lparr>MatchObjectPath = ''/org/freedesktop/login1'',
                  MatchInterface = ''org.freedesktop.login1.Manager'',
                  MatchSender = ''org.freedesktop.login1'', MatchMember = ''PrepareForSleep''\<rparr>, RemoveMatch \<lparr>MatchObjectPath = ''/org/freedesktop/login1'',
                  MatchInterface = ''org.freedesktop.login1.Manager'',
                  MatchSender = ''org.freedesktop.login1'', MatchMember = ''PrepareForSleep''\<rparr>], script = []\<rparr>,
          login1 = \<lparr>Dest = ''org.freedesktop.login1'', Path = ''/org/freedesktop/login1''\<rparr>,
          i_closeSignalHandler = NilChan, prepareForSleepSubs = {},
          prepareForShutdownSubs = {}\<rparr>)"
  by (simp add: New_def Conn_Object_def SubscribePrepareForSleep_def UnsubscribePrepareForSleep_def
        removePrepareForSleepSignal_def sleep_rule_def AddMatchSignal_def RemoveMatchSignal_def
        roundtrip_def dbusDest_def dbusManagerInterface_def dbusPath_def edge_requests_def)

section \<open>Unsubscribing a channel that was never subscribed\<close>

lemma lock_handleIncomingSignal_same:
  assumes "lockSignals dc' = lockSignals dc" "unlockSignals dc' = unlockSignals dc"
    "lockedHintSignals dc' = lockedHintSignals dc" "loginSessionObject dc' = loginSessionObject dc"
  shows "lock_handleIncomingSignal sig dc' stores = lock_handleIncomingSignal sig dc stores"
  unfolding lock_handleIncomingSignal_def assms by (rule refl)

lemma inhibit_handleIncomingSignal_same:
  assumes "prepareForSleepSubs i' = prepareForSleepSubs i"
    "prepareForShutdownSubs i' = prepareForShutdownSubs i" "login1 i' = login1 i"
  shows "inhibit_handleIncomingSignal sig i' store = inhibit_handleIncomingSignal sig i store"
  unfolding inhibit_handleIncomingSignal_def assms by (rule refl)

lemma removeLockSignal_object:
  "loginSessionObject (snd (removeLockSignal dc)) = loginSessionObject dc"
  by (simp add: removeLockSignal_def split: prod.splits option.splits)

lemma RemoveLockSignal_unknown:
  assumes nin: "ch \<notin> lockSignals dc" and r: "RemoveLockSignal (Some ch) dc = (e, dc')"
  shows "lockSignals dc' = lockSignals dc \<and> unlockSignals dc' = unlockSignals dc
     \<and> lockedHintSignals dc' = lockedHintSignals dc
     \<and> lock_handleIncomingSignal sig dc' stores = lock_handleIncomingSignal sig dc stores
     \<and> (lockSignals dc \<noteq> {} \<or> \<not> lockSignalActive dc \<longrightarrow> e = None \<and> dc' = dc)"
proof -
  from nin have d: "lockSignals dc - {ch} = lockSignals dc" by simp
  have same: "dc\<lparr>lockSignals := lockSignals dc - {ch}\<rparr> = dc" unfolding d by simp
  have r': "(if lockSignals dc = {} then removeLockSignal dc else (None, dc)) = (e, dc')"
    using r unfolding RemoveLockSignal_def Let_def option.case same .
  show ?thesis
  proof (cases "lockSignals dc = {}")
    case False
    with r' have "e = None" "dc' = dc" by simp_all
    then show ?thesis using False by simp
  next
    case True
    with r' have h: "removeLockSignal dc = (e, dc')" by simp
    then have s: "dc' = snd (removeLockSignal dc)" by simp
    have k: "lockSignals dc' = lockSignals dc" "unlockSignals dc' = unlockSignals dc"
        "lockedHintSignals dc' = lockedHintSignals dc"
        "loginSessionObject dc' = loginSessionObject dc"
      unfolding s by (simp_all only: removeLockSignal_keeps removeLockSignal_object)
    have n: "\<not> lockSignalActive dc \<longrightarrow> e = None \<and> dc' = dc"
    proof
      assume "\<not> lockSignalActive dc"
      then have "removeLockSignal dc = (None, dc)" by (simp add: removeLockSignal_def)
      with h show "e = None \<and> dc' = dc" by simp
    qed
    from k n True show ?thesis
      by (simp only: lock_handleIncomingSignal_same [OF k] simp_thms)
  qed
qed

lemma removeUnlockSignal_object:
  "loginSessionObject (snd (removeUnlockSignal dc)) = loginSessionObject dc"
  by (simp add: removeUnlockSignal_def split: prod.splits option.splits)

lemma RemoveUnlockSignal_unknown:
  assumes nin: "ch \<notin> unlockSignals dc" and r: "RemoveUnlockSignal (Some ch) dc = (e, dc')"
  shows "lockSignals dc' = lockSignals dc \<and> unlockSignals dc' = unlockSignals dc
     \<and> lockedHintSignals dc' = lockedHintSignals dc
     \<and> lock_handleIncomingSignal sig dc' stores = lock_handleIncomingSignal sig dc stores
     \<and> (unlockSignals dc \<noteq> {} \<or> \<not> unlockSignalActive dc \<longrightarrow> e = None \<and> dc' = dc)"
proof -
  from nin have d: "unlockSignals dc - {ch} = unlockSignals dc" by simp
  have same: "dc\<lparr>unlockSignals := unlockSignals dc - {ch}\<rparr> = dc" unfolding d by simp
  have r': "(if unlockSignals dc = {} then removeUnlockSignal dc else (None, dc)) = (e, dc')"
    using r unfolding RemoveUnlockSignal_def Let_def option.case same .
  show ?thesis
  proof (cases "unlockSignals dc = {}")
    case False
    with r' have "e = None" "dc' = dc" by simp_all
    then show ?thesis using False by simp
  next
    case True
    with r' have h: "removeUnlockSignal dc = (e, dc')" by simp
    then have s: "dc' = snd (removeUnlockSignal dc)" by simp
    have k: "lockSignals dc' = lockSignals dc" "unlockSignals dc' = unlockSignals dc"
        "lockedHintSignals dc' = lockedHintSignals dc"
        "loginSessionObject dc' = loginSessionObject dc"
      unfolding s by (simp_all only: removeUnlockSignal_keeps removeUnlockSignal_object)
    have n: "\<not> unlockSignalActive dc \<longrightarrow> e = None \<and> dc' = dc"
    proof
      assume "\<not> unlockSignalActive dc"
      then have "removeUnlockSignal dc = (None, dc)" by (simp add: removeUnlockSignal_def)
      with h show "e = None \<and> dc' = dc" by simp
    qed
    from k n True show ?thesis
      by (simp only: lock_handleIncomingSignal_same [OF k] simp_thms)
  qed
qed

lemma removePropertiesChangedSignal_object:
  "loginSessionObject (snd (removePropertiesChangedSignal dc)) = loginSessionObject dc"
  by (simp add: removePropertiesChangedSignal_def split: prod.splits option.splits)

lemma RemoveLockedSignal_unknown:
  assumes nin: "ch \<notin> lockedHintSignals dc" and r: "RemoveLockedSignal (Some ch) dc = (e, dc')"
  shows "lockSignals dc' = lockSignals dc \<and> unlockSignals dc' = unlockSignals dc
     \<and> lockedHintSignals dc' = lockedHintSignals dc
     \<and> lock_handleIncomingSignal sig dc' stores = lock_handleIncomingSignal sig dc stores
     \<and> (lockedHintSignals dc \<noteq> {} \<or> \<not> propertiesChangedActive dc \<longrightarrow> e = None \<and> dc' = dc)"
proof -
  from nin have d: "lockedHintSignals dc - {ch} = lockedHintSignals dc" by simp
  have same: "dc\<lparr>lockedHintSignals := lockedHintSignals dc - {ch}\<rparr> = dc" unfolding d by simp
  have r': "(if lockedHintSignals dc = {} then removePropertiesChangedSignal dc else (None, dc)) = (e, dc')"
    using r unfolding RemoveLockedSignal_def Let_def option.case same .
  show ?thesis
  proof (cases "lockedHintSignals dc = {}")
    case False
    with r' have "e = None" "dc' = dc" by simp_all
    then show ?thesis using False by simp
  next
    case True
    with r' have h: "removePropertiesChangedSignal dc = (e, dc')" by simp
    then have s: "dc' = snd (removePropertiesChangedSignal dc)" by simp
    have k: "lockSignals dc' = lockSignals dc" "unlockSignals dc' = unlockSignals dc"
        "lockedHintSignals dc' = lockedHintSignals dc"
        "loginSessionObject dc' = loginSessionObject dc"
      unfolding s by (simp_all only: removePropertiesChangedSignal_keeps removePropertiesChangedSignal_object)
    have n: "\<not> propertiesChangedActive dc \<longrightarrow> e = None \<and> dc' = dc"
    proof
      assume "\<not> propertiesChangedActive dc"
      then have "removePropertiesChangedSignal dc = (None, dc)" by (simp add: removePropertiesChangedSignal_def)
      with h show "e = None \<and> dc' = dc" by simp
    qed
    from k n True show ?thesis
      by (simp only: lock_handleIncomingSignal_same [OF k] simp_thms)
  qed
qed

lemma removePrepareForSleepSignal_object:
  "login1 (snd (removePrepareForSleepSignal i)) = login1 i"
  by (simp add: removePrepareForSleepSignal_def split: prod.splits option.splits)

lemma UnsubscribePrepareForSleep_unknown:
  assumes nin: "ch \<notin> prepareForSleepSubs i"
    and r: "UnsubscribePrepareForSleep (Some ch) i = (e, i')"
  shows "prepareForSleepSubs i' = prepareForSleepSubs i
     \<and> prepareForShutdownSubs i' = prepareForShutdownSubs i
     \<and> inhibit_handleIncomingSignal isig i' store = inhibit_handleIncomingSignal isig i store
     \<and> (prepareForSleepSubs i \<noteq> {} \<longrightarrow> e = None \<and> i' = i)"
proof -
  from nin have d: "prepareForSleepSubs i - {ch} = prepareForSleepSubs i" by simp
  have same: "i\<lparr>prepareForSleepSubs := prepareForSleepSubs i - {ch}\<rparr> = i"
    unfolding d by simp
  have r': "(if prepareForSleepSubs i = {} then removePrepareForSleepSignal i else (None, i))
              = (e, i')"
    using r unfolding UnsubscribePrepareForSleep_def Let_def option.case same .
  show ?thesis
  proof (cases "prepareForSleepSubs i = {}")
    case False
    with r' have "e = None" "i' = i" by simp_all
    then show ?thesis using False by simp
  next
    case True
    with r' have h: "removePrepareForSleepSignal i = (e, i')" by simp
    then have s: "i' = snd (removePrepareForSleepSignal i)" by simp
    have k: "prepareForSleepSubs i' = prepareForSleepSubs i"
        "prepareForShutdownSubs i' = prepareForShutdownSubs i" "login1 i' = login1 i"
      unfolding s
      by (simp_all only: removePrepareForSleepSignal_keeps removePrepareForSleepSignal_object)
    from k True show ?thesis
      by (simp only: inhibit_handleIncomingSignal_same [OF k] simp_thms)
  qed
qed

lemma removePrepareForShutdownSignal_object:
  "login1 (snd (removePrepareForShutdownSignal i)) = login1 i"
  by (simp add: removePrepareForShutdownSignal_def split: prod.splits option.splits)

lemma UnsubscribePrepareForShutdown_unknown:
  assumes nin: "ch \<notin> prepareForShutdownSubs i"
    and r: "UnsubscribePrepareForShutdown (Some ch) i = (e, i')"
  shows "prepareForSleepSubs i' = prepareForSleepSubs i
     \<and> prepareForShutdownSubs i' = prepareForShutdownSubs i
     \<and> inhibit_handleIncomingSignal isig i' store = inhibit_handleIncomingSignal isig i store
     \<and> (prepareForShutdownSubs i \<noteq> {} \<longrightarrow> e = None \<and> i' = i)"
proof -
  from nin have d: "prepareForShutdownSubs i - {ch} = prepareForShutdownSubs i" by simp
  have same: "i\<lparr>prepareForShutdownSubs := prepareForShutdownSubs i - {ch}\<rparr> = i"
    unfolding d by simp
  have r': "(if prepareForShutdownSubs i = {} then removePrepareForShutdownSignal i else (None, i))
              = (e, i')"
    using r unfolding UnsubscribePrepareForShutdown_def Let_def option.case same .
  show ?thesis
  proof (cases "prepareForShutdownSubs i = {}")
    case False
    with r' have "e = None" "i' = i" by simp_all
    then show ?thesis using False by simp
  next
    case True
    with r' have h: "removePrepareForShutdownSignal i = (e, i')" by simp
    then have s: "i' = snd (removePrepareForShutdownSignal i)" by simp
    have k: "prepareForSleepSubs i' = prepareForSleepSubs i"
        "prepareForShutdownSubs i' = prepareForShutdownSubs i" "login1 i' = login1 i"
      unfolding s
      by (simp_all only: removePrepareForShutdownSignal_keeps removePrepareForShutdownSignal_object)
    from k True show ?thesis
      by (simp only: inhibit_handleIncomingSignal_same [OF k] simp_thms)
  qed
qed

text \<open>
  Unsubscribing a channel that is not in the subscriber set never changes any subscriber
  set, and a signal dispatched afterwards is handed to the subscribers exactly as it
  would have been before. The call returns the nil error and leaves the facility as it
  was whenever another subscriber of that kind remains, and on the lock also whenever
  the kind's activation flag is unset.
\<close>

theorem unsubscribe_unknown_channel:
  "(ch \<notin> lockSignals dc \<and> RemoveLockSignal (Some ch) dc = (e1, dc1) \<longrightarrow>
     lockSignals dc1 = lockSignals dc \<and> unlockSignals dc1 = unlockSignals dc
     \<and> lockedHintSignals dc1 = lockedHintSignals dc
     \<and> lock_handleIncomingSignal sig dc1 stores = lock_handleIncomingSignal sig dc stores
     \<and> (lockSignals dc \<noteq> {} \<or> \<not> lockSignalActive dc \<longrightarrow> e1 = None \<and> dc1 = dc))
   \<and> (ch \<notin> unlockSignals dc \<and> RemoveUnlockSignal (Some ch) dc = (e2, dc2) \<longrightarrow>
     lockSignals dc2 = lockSignals dc \<and> unlockSignals dc2 = unlockSignals dc
     \<and> lockedHintSignals dc2 = lockedHintSignals dc
     \<and> lock_handleIncomingSignal sig dc2 stores = lock_handleIncomingSignal sig dc stores
     \<and> (unlockSignals dc \<noteq> {} \<or> \<not> unlockSignalActive dc \<longrightarrow> e2 = None \<and> dc2 = dc))
   \<and> (ch \<notin> lockedHintSignals dc \<and> RemoveLockedSignal (Some ch) dc = (e3, dc3) \<longrightarrow>
     lockSignals dc3 = lockSignals dc \<and> unlockSignals dc3 = unlockSignals dc
     \<and> lockedHintSignals dc3 = lockedHintSignals dc
     \<and> lock_handleIncomingSignal sig dc3 stores = lock_handleIncomingSignal sig dc stores
     \<and> (lockedHintSignals dc \<noteq> {} \<or> \<not> propertiesChangedActive dc \<longrightarrow> e3 = None \<and> dc3 = dc))
   \<and> (ch \<notin> prepareForSleepSubs i \<and> UnsubscribePrepareForSleep (Some ch) i = (e4, i4) \<longrightarrow>
     prepareForSleepSubs i4 = prepareForSleepSubs i
     \<and> prepareForShutdownSubs i4 = prepareForShutdownSubs i
     \<and> inhibit_handleIncomingSignal isig i4 store = inhibit_handleIncomingSignal isig i store
     \<and> (prepareForSleepSubs i \<noteq> {} \<longrightarrow> e4 = None \<and> i4 = i))
   \<and> (ch \<notin> prepareForShutdownSubs i \<and> UnsubscribePrepareForShutdown (Some ch) i = (e5, i5) \<longrightarrow>
     prepareForSleepSubs i5 = prepareForSleepSubs i
     \<and> prepareForShutdownSubs i5 = prepareForShutdownSubs i
     \<and> inhibit_handleIncomingSignal isig i5 store = inhibit_handleIncomingSignal isig i store
     \<and> (prepareForShutdownSubs i \<noteq> {} \<longrightarrow> e5 = None \<and> i5 = i))"
proof -
  have c1: "ch \<notin> lockSignals dc \<and> RemoveLockSignal (Some ch) dc = (e1, dc1) \<longrightarrow>
     lockSignals dc1 = lockSignals dc \<and> unlockSignals dc1 = unlockSignals dc
     \<and> lockedHintSignals dc1 = lockedHintSignals dc
     \<and> lock_handleIncomingSignal sig dc1 stores = lock_handleIncomingSignal sig dc stores
     \<and> (lockSignals dc \<noteq> {} \<or> \<not> lockSignalActive dc \<longrightarrow> e1 = None \<and> dc1 = dc)"
  proof
    assume h: "ch \<notin> lockSignals dc \<and> RemoveLockSignal (Some ch) dc = (e1, dc1)"
    show "lockSignals dc1 = lockSignals dc \<and> unlockSignals dc1 = unlockSignals dc
     \<and> lockedHintSignals dc1 = lockedHintSignals dc
     \<and> lock_handleIncomingSignal sig dc1 stores = lock_handleIncomingSignal sig dc stores
     \<and> (lockSignals dc \<noteq> {} \<or> \<not> lockSignalActive dc \<longrightarrow> e1 = None \<and> dc1 = dc)"
      by (rule RemoveLockSignal_unknown [OF conjunct1 [OF h] conjunct2 [OF h]])
  qed
  have c2: "ch \<notin> unlockSignals dc \<and> RemoveUnlockSignal (Some ch) dc = (e2, dc2) \<longrightarrow>
     lockSignals dc2 = lockSignals dc \<and> unlockSignals dc2 = unlockSignals dc
     \<and> lockedHintSignals dc2 = lockedHintSignals dc
     \<and> lock_handleIncomingSignal sig dc2 stores = lock_handleIncomingSignal sig dc stores
     \<and> (unlockSignals dc \<noteq> {} \<or> \<not> unlockSignalActive dc \<longrightarrow> e2 = None \<and> dc2 = dc)"
  proof
    assume h: "ch \<notin> unlockSignals dc \<and> RemoveUnlockSignal (Some ch) dc = (e2, dc2)"
    show "lockSignals dc2 = lockSignals dc \<and> unlockSignals dc2 = unlockSignals dc
     \<and> lockedHintSignals dc2 = lockedHintSignals dc
     \<and> lock_handleIncomingSignal sig dc2 stores = lock_handleIncomingSignal sig dc stores
     \<and> (unlockSignals dc \<noteq> {} \<or> \<not> unlockSignalActive dc \<longrightarrow> e2 = None \<and> dc2 = dc)"
      by (rule RemoveUnlockSignal_unknown [OF conjunct1 [OF h] conjunct2 [OF h]])
  qed
  have c3: "ch \<notin> lockedHintSignals dc \<and> RemoveLockedSignal (Some ch) dc = (e3, dc3) \<longrightarrow>
     lockSignals dc3 = lockSignals dc \<and> unlockSignals dc3 = unlockSignals dc
     \<and> lockedHintSignals dc3 = lockedHintSignals dc
     \<and> lock_handleIncomingSignal sig dc3 stores = lock_handleIncomingSignal sig dc stores
     \<and> (lockedHintSignals dc \<noteq> {} \<or> \<not> propertiesChangedActive dc \<longrightarrow> e3 = None \<and> dc3 = dc)"
  proof
    assume h: "ch \<notin> lockedHintSignals dc \<and> RemoveLockedSignal (Some ch) dc = (e3, dc3)"
    show "lockSignals dc3 = lockSignals dc \<and> unlockSignals dc3 = unlockSignals dc
     \<and> lockedHintSignals dc3 = lockedHintSignals dc
     \<and> lock_handleIncomingSignal sig dc3 stores = lock_handleIncomingSignal sig dc stores
     \<and> (lockedHintSignals dc \<noteq> {} \<or> \<not> propertiesChangedActive dc \<longrightarrow> e3 = None \<and> dc3 = dc)"
      by (rule RemoveLockedSignal_unknown [OF conjunct1 [OF h] conjunct2 [OF h]])
  qed
  have c4: "ch \<notin> prepareForSleepSubs i \<and> UnsubscribePrepareForSleep (Some ch) i = (e4, i4) \<longrightarrow>
     prepareForSleepSubs i4 = prepareForSleepSubs i
     \<and> prepareForShutdownSubs i4 = prepareForShutdownSubs i
     \<and> inhibit_handleIncomingSignal isig i4 store = inhibit_handleIncomingSignal isig i store
     \<and> (prepareForSleepSubs i \<noteq> {} \<longrightarrow> e4 = None \<and> i4 = i)"
  proof
    assume h: "ch \<notin> prepareForSleepSubs i \<and> UnsubscribePrepareForSleep (Some ch) i = (e4, i4)"
    show "prepareForSleepSubs i4 = prepareForSleepSubs i
     \<and> prepareForShutdownSubs i4 = prepareForShutdownSubs i
     \<and> inhibit_handleIncomingSignal isig i4 store = inhibit_handleIncomingSignal isig i store
     \<and> (prepareForSleepSubs i \<noteq> {} \<longrightarrow> e4 = None \<and> i4 = i)"
      by (rule UnsubscribePrepareForSleep_unknown [OF conjunct1 [OF h] conjunct2 [OF h]])
  qed
  have c5: "ch \<notin> prepareForShutdownSubs i \<and> UnsubscribePrepareForShutdown (Some ch) i = (e5, i5) \<longrightarrow>
     prepareForSleepSubs i5 = prepareForSleepSubs i
     \<and> prepareForShutdownSubs i5 = prepareForShutdownSubs i
     \<and> inhibit_handleIncomingSignal isig i5 store = inhibit_handleIncomingSignal isig i store
     \<and> (prepareForShutdownSubs i \<noteq> {} \<longrightarrow> e5 = None \<and> i5 = i)"
  proof
    assume h: "ch \<notin> prepareForShutdownSubs i \<and> UnsubscribePrepareForShutdown (Some ch) i = (e5, i5)"
    show "prepareForSleepSubs i5 = prepareForSleepSubs i
     \<and> prepareForShutdownSubs i5 = prepareForShutdownSubs i
     \<and> inhibit_handleIncomingSignal isig i5 store = inhibit_handleIncomingSignal isig i store
     \<and> (prepareForShutdownSubs i \<noteq> {} \<longrightarrow> e5 = None \<and> i5 = i)"
      by (rule UnsubscribePrepareForShutdown_unknown [OF conjunct1 [OF h] conjunct2 [OF h]])
  qed
  from c1 c2 c3 c4 c5 show ?thesis by (intro conjI)
qed

theorem unsubscribe_unknown_channel_witness:
  "9 \<notin> lockSignals \<lparr>conn = \<lparr>sent = [Call ''/org/freedesktop/login1'' ''org.freedesktop.login1.Manager.ListSessions'' [], AddMatch \<lparr>MatchObjectPath = ''/org/freedesktop/login1/session/_31'',
                  MatchInterface = ''org.freedesktop.login1.Session'',
                  MatchSender = ''org.freedesktop.login1'', MatchMember = ''Lock''\<rparr>], script = [Inl (Msg ''bus unavailable'')]\<rparr>,
          loginSessionObject =
            \<lparr>Dest = ''org.freedesktop.login1'', Path = ''/org/freedesktop/login1/session/_31''\<rparr>,
          closeSignalHandler = OpenChan, lockSignals = {7}, lockedHintSignals = {},
          unlockSignals = {}, lockSignalActive = True, propertiesChangedActive = False,
          unlockSignalActive = False\<rparr>
   \<and> RemoveLockSignal (Some 9) \<lparr>conn = \<lparr>sent = [Call ''/org/freedesktop/login1'' ''org.freedesktop.login1.Manager.ListSessions'' [], AddMatch \<lparr>MatchObjectPath = ''/org/freedesktop/login1/session/_31'',
                  MatchInterface = ''org.freedesktop.login1.Session'',
                  MatchSender = ''org.freedesktop.login1'', MatchMember = ''Lock''\<rparr>], script = [Inl (Msg ''bus unavailable'')]\<rparr>,
          loginSessionObject =
            \<lparr>Dest = ''org.freedesktop.login1'', Path = ''/org/freedesktop/login1/session/_31''\<rparr>,
          closeSignalHandler = OpenChan, lockSignals = {7}, lockedHintSignals = {},
          unlockSignals = {}, lockSignalActive = True, propertiesChangedActive = False,
          unlockSignalActive = False\<rparr> =
      (None, \<lparr>conn = \<lparr>sent = [Call ''/org/freedesktop/login1'' ''org.freedesktop.login1.Manager.ListSessions'' [], AddMatch \<lparr>MatchObjectPath = ''/org/freedesktop/login1/session/_31'',
                  MatchInterface = ''org.freedesktop.login1.Session'',
                  MatchSender = ''org.freedesktop.login1'', MatchMember = ''Lock''\<rparr>], script = [Inl (Msg ''bus unavailable'')]\<rparr>,
          loginSessionObject =
            \<lparr>Dest = ''org.freedesktop.login1'', Path = ''/org/freedesktop/login1/session/_31''\<rparr>,
          closeSignalHandler = OpenChan, lockSignals = {7}, lockedHintSignals = {},
          unlockSignals = {}, lockSignalActive = True, propertiesChangedActive = False,
          unlockSignalActive = False\<rparr>)
   \<and> 4 \<notin> prepareForSleepSubs \<lparr>i_conn = \<lparr>sent = [AddMatch \<lparr>MatchObjectPath = ''/org/freedesktop/login1'',
                  MatchInterface = ''org.freedesktop.login1.Manager'',
                  MatchSender = ''org.freedesktop.login1'', MatchMember = ''PrepareForSleep''\<rparr>], script = [Inl (Msg ''bus unavailable'')]\<rparr>,
          login1 = \<lparr>Dest = ''org.freedesktop.login1'', Path = ''/org/freedesktop/login1''\<rparr>,
          i_closeSignalHandler = NilChan, prepareForSleepSubs = {3},
          prepareForShutdownSubs = {}\<rparr>
   \<and> UnsubscribePrepareForSleep (Some 4) \<lparr>i_conn = \<lparr>sent = [AddMatch \<lparr>MatchObjectPath = ''/org/freedesktop/login1'',
                  MatchInterface = ''org.freedesktop.login1.Manager'',
                  MatchSender = ''org.freedesktop.login1'', MatchMember = ''PrepareForSleep''\<rparr>], script = [Inl (Msg ''bus unavailable'')]\<rparr>,
          login1 = \<lparr>Dest = ''org.freedesktop.login1'', Path = ''/org/freedesktop/login1''\<rparr>,
          i_closeSignalHandler = NilChan, prepareForSleepSubs = {3},
          prepareForShutdownSubs = {}\<rparr> =
      (None, \<lparr>i_conn = \<lparr>sent = [AddMatch \<lparr>MatchObjectPath = ''/org/freedesktop/login1'',
                  MatchInterface = ''org.freedesktop.login1.Manager'',
                  MatchSender = ''org.freedesktop.login1'', MatchMember = ''PrepareForSleep''\<rparr>], script = [Inl (Msg ''bus unavailable'')]\<rparr>,
          login1 = \<lparr>Dest = ''org.freedesktop.login1'', Path = ''/org/freedesktop/login1''\<rparr>,
          i_closeSignalHandler = NilChan, prepareForSleepSubs = {3},
          prepareForShutdownSubs = {}\<rparr>)"
proof -
  let ?L = "\<lparr>conn = \<lparr>sent = [Call ''/org/freedesktop/login1'' ''org.freedesktop.login1.Manager.ListSessions'' [], AddMatch \<lparr>MatchObjectPath = ''/org/freedesktop/login1/session/_31'',
                  MatchInterface = ''org.freedesktop.login1.Session'',
                  MatchSender = ''org.freedesktop.login1'', MatchMember = ''Lock''\<rparr>], script = [Inl (Msg ''bus unavailable'')]\<rparr>,
          loginSessionObject =
            \<lparr>Dest = ''org.freedesktop.login1'', Path = ''/org/freedesktop/login1/session/_31''\<rparr>,
          closeSignalHandler = OpenChan, lockSignals = {7}, lockedHintSignals = {},
          unlockSignals = {}, lockSignalActive = True, propertiesChangedActive = False,
          unlockSignalActive = False\<rparr>"
  let ?I = "\<lparr>i_conn = \<lparr>sent = [AddMatch \<lparr>MatchObjectPath = ''/org/freedesktop/login1'',
                  MatchInterface = ''org.freedesktop.login1.Manager'',
                  MatchSender = ''org.freedesktop.login1'', MatchMember = ''PrepareForSleep''\<rparr>], script = [Inl (Msg ''bus unavailable'')]\<rparr>,
          login1 = \<lparr>Dest = ''org.freedesktop.login1'', Path = ''/org/freedesktop/login1''\<rparr>,
          i_closeSignalHandler = NilChan, prepareForSleepSubs = {3},
          prepareForShutdownSubs = {}\<rparr>"
  have n1: "9 \<notin> lockSignals ?L" by simp
  then have "9 \<notin> lockSignals ?L
      \<and> RemoveLockSignal (Some 9) ?L =
          (fst (RemoveLockSignal (Some 9) ?L), snd (RemoveLockSignal (Some 9) ?L))"
    by simp
  from unsubscribe_unknown_channel [THEN conjunct1, THEN mp, OF this]
  have "fst (RemoveLockSignal (Some 9) ?L) = None \<and> snd (RemoveLockSignal (Some 9) ?L) = ?L"
    by simp
  then have r1: "RemoveLockSignal (Some 9) ?L = (None, ?L)"
    by (simp add: prod_eq_iff)
  have n2: "4 \<notin> prepareForSleepSubs ?I" by simp
  then have "4 \<notin> prepareForSleepSubs ?I
      \<and> UnsubscribePrepareForSleep (Some 4) ?I =
          (fst (UnsubscribePrepareForSleep (Some 4) ?I),
           snd (UnsubscribePrepareForSleep (Some 4) ?I))"
    by simp
  from unsubscribe_unknown_channel
         [THEN conjunct2, THEN conjunct2, THEN conjunct2, THEN conjunct1, THEN mp, OF this]
  have "fst (UnsubscribePrepareForSleep (Some 4) ?I) = None
      \<and> snd (UnsubscribePrepareForSleep (Some 4) ?I) = ?I"
    by simp
  then have r2: "UnsubscribePrepareForSleep (Some 4) ?I = (None, ?I)"
    by (simp add: prod_eq_iff)
  from n1 r1 n2 r2 show ?thesis by (intro conjI)
qed

text \<open>
  C6 asks that unsubscribing a never-subscribed channel return the nil error. On an
  Inhibitor fresh from \<open>New\<close> the call sends remove-match although nothing was ever
  registered; the bus answers that it has no such rule, and the call returns that error.
  A lock in the same situation, with the same answer waiting on the bus, returns the nil
  error without contacting the bus: its activation flag guards the request.
\<close>

theorem Unsubscribe_unknown_channel_returns_bus_error:
  "New (Inr \<lparr>sent = [], script = [Inl (Msg ''org.freedesktop.DBus.Error.MatchRuleNotFound'')]\<rparr>) =
     Inr \<lparr>i_conn = \<lparr>sent = [], script = [Inl (Msg ''org.freedesktop.DBus.Error.MatchRuleNotFound'')]\<rparr>,
          login1 = \<lparr>Dest = ''org.freedesktop.login1'', Path = ''/org/freedesktop/login1''\<rparr>,
          i_closeSignalHandler = NilChan, prepareForSleepSubs = {},
          prepareForShutdownSubs = {}\<rparr>
   \<and> 3 \<notin> prepareForSleepSubs \<lparr>i_conn = \<lparr>sent = [], script = [Inl (Msg ''org.freedesktop.DBus.Error.MatchRuleNotFound'')]\<rparr>,
          login1 = \<lparr>Dest = ''org.freedesktop.login1'', Path = ''/org/freedesktop/login1''\<rparr>,
          i_closeSignalHandler = NilChan, prepareForSleepSubs = {},
          prepareForShutdownSubs = {}\<rparr>
   \<and> UnsubscribePrepareForSleep (Some 3) \<lparr>i_conn = \<lparr>sent = [], script = [Inl (Msg ''org.freedesktop.DBus.Error.MatchRuleNotFound'')]\<rparr>,
          login1 = \<lparr>Dest = ''org.freedesktop.login1'', Path = ''/org/freedesktop/login1''\<rparr>,
          i_closeSignalHandler = NilChan, prepareForSleepSubs = {},
          prepareForShutdownSubs = {}\<rparr> =
      (Some (Wrap ''failed to remove Dbus PrepareForSleep signal''
               (Msg ''org.freedesktop.DBus.Error.MatchRuleNotFound'')),
       \<lparr>i_conn = \<lparr>sent = [RemoveMatch \<lparr>MatchObjectPath = ''/org/freedesktop/login1'',
                  MatchInterface = ''org.freedesktop.login1.Manager'',
                  MatchSender = ''org.freedesktop.login1'', MatchMember = ''PrepareForSleep''\<rparr>], script = []\<rparr>,
          login1 = \<lparr>Dest = ''org.freedesktop.login1'', Path = ''/org/freedesktop/login1''\<rparr>,
          i_closeSignalHandler = NilChan, prepareForSleepSubs = {},
          prepareForShutdownSubs = {}\<rparr>)
   \<and> RemoveLockSignal (Some 3) \<lparr>conn = \<lparr>sent = [Call ''/org/freedesktop/login1'' ''org.freedesktop.login1.Manager.ListSessions'' []], script = [Inl (Msg ''org.freedesktop.DBus.Error.MatchRuleNotFound'')]\<rparr>,
          loginSessionObject =
            \<lparr>Dest = ''org.freedesktop.login1'', Path = ''/org/freedesktop/login1/session/_31''\<rparr>,
          closeSignalHandler = OpenChan, lockSignals = {}, lockedHintSignals = {},
          unlockSignals = {}, lockSignalActive = False, propertiesChangedActive = False,
          unlockSignalActive = False\<rparr> =
      (None, \<lparr>conn = \<lparr>sent = [Call ''/org/freedesktop/login1'' ''org.freedesktop.login1.Manager.ListSessions'' []], script = [Inl (Msg ''org.freedesktop.DBus.Error.MatchRuleNotFound'')]\<rparr>,
          loginSessionObject =
            \<lparr>Dest = ''org.freedesktop.login1'', Path = ''/org/freedesktop/login1/session/_31''\<rparr>,
          closeSignalHandler = OpenChan, lockSignals = {}, lockedHintSignals = {},
          unlockSignals = {}, lockSignalActive = False, propertiesChangedActive = False,
          unlockSignalActive = False\<rparr>)"
  by (simp add: New_def Conn_Object_def SubscribePrepareForSleep_def UnsubscribePrepareForSleep_def
        removePrepareForSleepSignal_def sleep_rule_def AddMatchSignal_def RemoveMatchSignal_def
        roundtrip_def dbusDest_def dbusManagerInterface_def dbusPath_def edge_requests_def RemoveLockSignal_def removeLockSignal_def)

end
